theory Spec2Isabelle
  imports Complex_Main
begin

section \<open>Python values\<close>

text \<open>
  The SDK (\<^verbatim>\<open>awap_sdk/__init__.py\<close>) and the formatter plugin
  (\<^verbatim>\<open>custom-feedback-formatter/plugin.py\<close>) pass around what
  \<^verbatim>\<open>response.json()\<close> returns: dynamically typed values. A value is one of
  Python's \<^verbatim>\<open>None\<close>, \<^verbatim>\<open>bool\<close>, \<^verbatim>\<open>int\<close> (unbounded),
  \<^verbatim>\<open>float\<close>, \<^verbatim>\<open>str\<close>, \<^verbatim>\<open>list\<close> and \<^verbatim>\<open>dict\<close> with string keys.

  \<^item> A \<^verbatim>\<open>str\<close> is a \<open>string\<close>: each \<open>char\<close> is one code point below 256.
  \<^item> A \<^verbatim>\<open>float\<close> is identified by the text that \<^verbatim>\<open>repr\<close> prints for it
    (\<open>''0.0''\<close>, \<open>''85.5''\<close>, \<open>''1e+16''\<close>, \<open>''nan''\<close>): the modelled code stores and
    prints floats and never computes with them.
  \<^item> A \<^verbatim>\<open>dict\<close> is an association list in insertion order; a lookup takes the first
    entry of a key (a Python dict holds each key once).
\<close>

datatype pyval =
    PNone
  | PBool bool
  | PInt int
  | PFloat string
  | PStr string
  | PList "pyval list"
  | PDict "(string \<times> pyval) list"

text \<open>Every \<^verbatim>\<open>raise\<close> of the source, and every exception of a builtin it calls.\<close>

datatype error =
    KeyError string
  | TypeError
  | AttributeError
  | ValueError
  | FileNotFoundError string
  | OSError
  | JSONDecodeError
  | AwapAPIError string "int option"
  | AwapTimeoutError string

definition bind_err :: "error + 'a \<Rightarrow> ('a \<Rightarrow> error + 'b) \<Rightarrow> error + 'b" where
  "bind_err m f = (case m of Inl e \<Rightarrow> Inl e | Inr x \<Rightarrow> f x)"

subsection \<open>Printing: \<^verbatim>\<open>str\<close>, \<^verbatim>\<open>repr\<close> and f-string fields\<close>

definition nl :: string where
  "nl = [CHR 0x0A]"

definition bs :: string where
  "bs = [CHR 0x5C]"

definition digit_char :: "nat \<Rightarrow> char" where
  "digit_char d = char_of (of_char (CHR ''0'') + d)"

fun dec_nat :: "nat \<Rightarrow> string" where
  "dec_nat n = (if n < 10 then [digit_char n] else dec_nat (n div 10) @ [digit_char (n mod 10)])"

declare dec_nat.simps [simp del]

definition dec_int :: "int \<Rightarrow> string" where
  "dec_int i = (if i < 0 then ''-'' @ dec_nat (nat (- i)) else dec_nat (nat i))"

definition hex_char :: "nat \<Rightarrow> char" where
  "hex_char d = (if d < 10 then digit_char d else char_of (of_char (CHR ''a'') + (d - 10)))"

definition hex2 :: "char \<Rightarrow> string" where
  "hex2 c = [hex_char (of_char c div 16), hex_char (of_char c mod 16)]"

text \<open>\<^verbatim>\<open>str.isprintable\<close> on one code point below 256.\<close>

definition py_printable :: "char \<Rightarrow> bool" where
  "py_printable c =
     (let n = (of_char c :: nat)
      in (32 \<le> n \<and> n < 127) \<or> (161 \<le> n \<and> n \<noteq> 173))"

definition repr_char :: "char \<Rightarrow> char \<Rightarrow> string" where
  "repr_char quote c =
     (if c = quote \<or> c = CHR 0x5C then [CHR 0x5C, c]
      else if c = CHR 0x09 then bs @ ''t''
      else if c = CHR 0x0A then bs @ ''n''
      else if c = CHR 0x0D then bs @ ''r''
      else if py_printable c then [c]
      else bs @ ''x'' @ hex2 c)"

definition repr_str :: "string \<Rightarrow> string" where
  "repr_str s =
     (let quote = (if CHR 0x27 \<in> set s \<and> CHR 0x22 \<notin> set s then CHR 0x22 else CHR 0x27)
      in [quote] @ concat (map (repr_char quote) s) @ [quote])"

fun join :: "string \<Rightarrow> string list \<Rightarrow> string" where
  "join sep [] = []"
| "join sep [x] = x"
| "join sep (x # y # ys) = x @ sep @ join sep (y # ys)"

fun py_repr :: "pyval \<Rightarrow> string" where
  "py_repr PNone = ''None''"
| "py_repr (PBool b) = (if b then ''True'' else ''False'')"
| "py_repr (PInt i) = dec_int i"
| "py_repr (PFloat r) = r"
| "py_repr (PStr s) = repr_str s"
| "py_repr (PList xs) = ''['' @ join '', '' (map py_repr xs) @ '']''"
| "py_repr (PDict kvs) =
     ''{'' @ join '', '' (map (\<lambda>kv. repr_str (fst kv) @ '': '' @ py_repr (snd kv)) kvs) @ ''}''"

text \<open>\<^verbatim>\<open>str(v)\<close>, which is also what an f-string field \<^verbatim>\<open>{v}\<close> inserts.\<close>

fun py_str :: "pyval \<Rightarrow> string" where
  "py_str (PStr s) = s"
| "py_str v = py_repr v"

text \<open>Truth value of a value, as \<^verbatim>\<open>not v\<close> and \<^verbatim>\<open>a or b\<close> test it.\<close>

fun py_truthy :: "pyval \<Rightarrow> bool" where
  "py_truthy PNone = False"
| "py_truthy (PBool b) = b"
| "py_truthy (PInt i) = (i \<noteq> 0)"
| "py_truthy (PFloat r) = (r \<noteq> ''0.0'' \<and> r \<noteq> ''-0.0'')"
| "py_truthy (PStr s) = (s \<noteq> [])"
| "py_truthy (PList xs) = (xs \<noteq> [])"
| "py_truthy (PDict kvs) = (kvs \<noteq> [])"

text \<open>\<^verbatim>\<open>v.get(k, d)\<close>: only a dict has the method.\<close>

fun py_get :: "pyval \<Rightarrow> string \<Rightarrow> pyval \<Rightarrow> error + pyval" where
  "py_get (PDict kvs) k d = Inr (case map_of kvs k of None \<Rightarrow> d | Some v \<Rightarrow> v)"
| "py_get v k d = Inl AttributeError"

text \<open>\<^verbatim>\<open>v[k]\<close> with a string key: a missing key raises, and so does any value that is not a dict.\<close>

fun py_item :: "pyval \<Rightarrow> string \<Rightarrow> error + pyval" where
  "py_item (PDict kvs) k = (case map_of kvs k of None \<Rightarrow> Inl (KeyError k) | Some v \<Rightarrow> Inr v)"
| "py_item v k = Inl TypeError"

text \<open>
  What \<^verbatim>\<open>for x in v\<close> walks through: the items of a list, the characters of a string,
  the keys of a dict; nothing else in this value type is iterable.
\<close>

fun py_iter :: "pyval \<Rightarrow> error + pyval list" where
  "py_iter (PList xs) = Inr xs"
| "py_iter (PStr s) = Inr (map (\<lambda>c. PStr [c]) s)"
| "py_iter (PDict kvs) = Inr (map (\<lambda>kv. PStr (fst kv)) kvs)"
| "py_iter v = Inl TypeError"

section \<open>The SDK: \<^verbatim>\<open>awap_sdk/__init__.py\<close>\<close>

subsection \<open>Data classes\<close>

text \<open>
  The dataclasses \<^verbatim>\<open>Feedback\<close> and \<^verbatim>\<open>MarkingResult\<close>. A dataclass does not check the
  annotated types, so each field holds whatever value the caller (here \<^verbatim>\<open>from_dict\<close>, with
  values of the response) puts there.
\<close>

record Feedback =
  summary :: pyval
  strengths :: pyval
  areas_for_improvement :: pyval
  detailed_comments :: pyval

record MarkingResult =
  tma_id :: pyval
  student_id :: pyval
  score :: pyval
  grade :: pyval
  feedback :: Feedback
  marked_at :: pyval

text \<open>
  \<^verbatim>\<open>MarkingResult.from_dict\<close>: the feedback object and its four fields are read with
  \<^verbatim>\<open>.get\<close> and a default, and this comes first; the five top-level fields are read
  with \<^verbatim>\<open>data[...]\<close>, in the order of the constructor call.
\<close>

definition from_dict :: "pyval \<Rightarrow> error + MarkingResult" where
  "from_dict data =
     bind_err (py_get data ''feedback'' (PDict [])) (\<lambda>feedback_data.
     bind_err (py_get feedback_data ''summary'' (PStr [])) (\<lambda>fb_summary.
     bind_err (py_get feedback_data ''strengths'' (PList [])) (\<lambda>fb_strengths.
     bind_err (py_get feedback_data ''areas_for_improvement'' (PList [])) (\<lambda>fb_areas.
     bind_err (py_get feedback_data ''detailed_comments'' (PList [])) (\<lambda>fb_comments.
     bind_err (py_item data ''tma_id'') (\<lambda>d_tma_id.
     bind_err (py_item data ''student_id'') (\<lambda>d_student_id.
     bind_err (py_item data ''score'') (\<lambda>d_score.
     bind_err (py_item data ''grade'') (\<lambda>d_grade.
     bind_err (py_item data ''marked_at'') (\<lambda>d_marked_at.
       Inr \<lparr>tma_id = d_tma_id, student_id = d_student_id, score = d_score, grade = d_grade,
            feedback = \<lparr>summary = fb_summary, strengths = fb_strengths,
                         areas_for_improvement = fb_areas, detailed_comments = fb_comments\<rparr>,
            marked_at = d_marked_at\<rparr>))))))))))"

subsection \<open>The world outside the client\<close>

text \<open>
  What the client touches: the local file system (\<^verbatim>\<open>os.path.exists\<close>, \<^verbatim>\<open>open\<close>), the
  wall clock (\<^verbatim>\<open>time.time\<close>, \<^verbatim>\<open>time.sleep\<close>) and the HTTP session. The environment
  \<open>env\<close> is what the client cannot change; the state \<open>world\<close> is what its calls change:
  the clock, in seconds, and the log of the requests sent so far.
\<close>

datatype fs_entry = RegularFile string | Directory | Unreadable

datatype payload =
    NoBody
  | Multipart string string string "(string \<times> string) list"
  | JsonBody pyval

record http_request =
  http_method :: string
  http_url :: string
  http_payload :: payload

text \<open>
  A response as \<^verbatim>\<open>requests\<close> presents it: \<open>json_body\<close> is what \<^verbatim>\<open>response.json()\<close>
  returns, \<open>None\<close> when the body is not JSON (the call raises then).
\<close>

record http_response =
  status_code :: int
  reason :: string
  response_url :: string
  json_body :: "pyval option"

text \<open>
  \<^verbatim>\<open>session.request\<close> either raises a \<^verbatim>\<open>RequestException\<close> (connection refused,
  transport timeout, ...), with its text, or returns a response of any status.
\<close>

datatype http_outcome = RequestException string | Responded http_response

record env =
  fs :: "string \<Rightarrow> fs_entry option"
  reply :: "nat \<Rightarrow> http_request \<Rightarrow> http_outcome"
  latency :: "nat \<Rightarrow> real"

record world =
  clock :: real
  sent :: "http_request list"

text \<open>The client object: \<^verbatim>\<open>self.api_url\<close> and \<^verbatim>\<open>self.timeout\<close>.\<close>

record AwapClient =
  api_url :: string
  timeout :: int

text \<open>
  \<^verbatim>\<open>Response.raise_for_status\<close>: the text of the \<^verbatim>\<open>HTTPError\<close> for a status in
  400..599, nothing for any other status.
\<close>

definition raise_for_status :: "http_response \<Rightarrow> string option" where
  "raise_for_status r =
     (if 400 \<le> status_code r \<and> status_code r < 500
      then Some (dec_int (status_code r) @ '' Client Error: '' @ reason r @ '' for url: '' @ response_url r)
      else if 500 \<le> status_code r \<and> status_code r < 600
      then Some (dec_int (status_code r) @ '' Server Error: '' @ reason r @ '' for url: '' @ response_url r)
      else None)"

text \<open>\<^verbatim>\<open>bool(response)\<close> is \<^verbatim>\<open>response.ok\<close>: true when \<^verbatim>\<open>raise_for_status\<close> does not raise.\<close>

definition response_ok :: "http_response \<Rightarrow> bool" where
  "response_ok r = (raise_for_status r = None)"

text \<open>
  \<^verbatim>\<open>AwapClient._request\<close>. The \<open>n\<close>-th request of a run (counted from 0) is logged, takes
  \<open>latency env n\<close> seconds and is answered by \<open>reply env n\<close>. The status code handed to
  \<^verbatim>\<open>AwapAPIError\<close> is \<^verbatim>\<open>e.response.status_code if e.response else None\<close>.
\<close>

definition request ::
  "env \<Rightarrow> AwapClient \<Rightarrow> string \<Rightarrow> string \<Rightarrow> payload \<Rightarrow> world \<Rightarrow> (error + http_response) \<times> world" where
  "request env self method endpoint body w =
     (let url = api_url self @ endpoint;
          req = \<lparr>http_method = method, http_url = url, http_payload = body\<rparr>;
          n = length (sent w);
          w' = w\<lparr>clock := clock w + latency env n, sent := sent w @ [req]\<rparr>
      in case reply env n req of
           RequestException txt \<Rightarrow> (Inl (AwapAPIError (''Request failed: '' @ txt) None), w')
         | Responded response \<Rightarrow>
             (case raise_for_status response of
                Some http_error_msg \<Rightarrow>
                  (Inl (AwapAPIError (''API request failed: '' @ http_error_msg)
                          (if response_ok response then Some (status_code response) else None)), w')
              | None \<Rightarrow> (Inr response, w')))"

text \<open>\<^verbatim>\<open>response.json()\<close>, which raises when the body is not JSON.\<close>

definition response_json :: "http_response \<Rightarrow> error + pyval" where
  "response_json response = (case json_body response of None \<Rightarrow> Inl JSONDecodeError | Some v \<Rightarrow> Inr v)"

text \<open>\<^verbatim>\<open>os.path.basename\<close>: what follows the last slash.\<close>

definition basename :: "string \<Rightarrow> string" where
  "basename p = rev (takeWhile (\<lambda>c. c \<noteq> CHR ''/'') (rev p))"

subsection \<open>The operations of the client\<close>

text \<open>
  The methods of \<^verbatim>\<open>AwapClient\<close>, each with the environment and the client in front and
  the world behind its own parameters, returning its result or error and the new world.
  \<^verbatim>\<open>_request\<close> is \<open>request\<close> above; the parameters \<^verbatim>\<open>student_id\<close>, \<^verbatim>\<open>tma_id\<close> and
  \<^verbatim>\<open>job_id\<close> are \<open>student\<close>, \<open>tma\<close> and \<open>job\<close> here, the longer names being fields
  of \<open>MarkingResult\<close>. A handle is whatever value the response held, so it is a
  \<open>pyval\<close>, and an f-string prints it into the path.

  \<^verbatim>\<open>upload_tma\<close>: the check of the local file comes before anything else; \<^verbatim>\<open>open\<close>
  raises on a path that exists and is no readable file.
\<close>

definition upload_tma ::
  "env \<Rightarrow> AwapClient \<Rightarrow> string \<Rightarrow> string \<Rightarrow> string \<Rightarrow> world \<Rightarrow> (error + pyval) \<times> world" where
  "upload_tma env self file_path student rubric w =
     (case fs env file_path of
        None \<Rightarrow> (Inl (FileNotFoundError (''TMA file not found: '' @ file_path)), w)
      | Some Directory \<Rightarrow> (Inl OSError, w)
      | Some Unreadable \<Rightarrow> (Inl OSError, w)
      | Some (RegularFile f) \<Rightarrow>
          (let files = Multipart (basename file_path) f ''application/pdf''
                         [(''student_id'', student), (''rubric'', rubric)]
           in case request env self ''POST'' ''/api/v1/tma/upload'' files w of
                (Inl e, w') \<Rightarrow> (Inl e, w')
              | (Inr response, w') \<Rightarrow>
                  (case bind_err (response_json response) (\<lambda>result. py_get result ''tma_id'' PNone) of
                     Inl e \<Rightarrow> (Inl e, w')
                   | Inr tma \<Rightarrow>
                       if \<not> py_truthy tma
                       then (Inl (AwapAPIError ''No TMA ID returned from upload'' None), w')
                       else (Inr tma, w'))))"

definition submit_for_marking ::
  "env \<Rightarrow> AwapClient \<Rightarrow> pyval \<Rightarrow> string \<Rightarrow> bool \<Rightarrow> world \<Rightarrow> (error + pyval) \<times> world" where
  "submit_for_marking env self tma rubric auto_feedback w =
     (case request env self ''POST'' (''/api/v1/tma/'' @ py_str tma @ ''/mark'')
             (JsonBody (PDict [(''rubric'', PStr rubric), (''auto_feedback'', PBool auto_feedback)])) w of
        (Inl e, w') \<Rightarrow> (Inl e, w')
      | (Inr response, w') \<Rightarrow>
          (case bind_err (response_json response) (\<lambda>result. py_get result ''job_id'' PNone) of
             Inl e \<Rightarrow> (Inl e, w')
           | Inr job \<Rightarrow>
               if \<not> py_truthy job
               then (Inl (AwapAPIError ''No job ID returned'' None), w')
               else (Inr job, w')))"

definition get_job_status ::
  "env \<Rightarrow> AwapClient \<Rightarrow> pyval \<Rightarrow> world \<Rightarrow> (error + pyval) \<times> world" where
  "get_job_status env self job w =
     (case request env self ''GET'' (''/api/v1/jobs/'' @ py_str job) NoBody w of
        (Inl e, w') \<Rightarrow> (Inl e, w')
      | (Inr response, w') \<Rightarrow> (response_json response, w'))"

definition get_results ::
  "env \<Rightarrow> AwapClient \<Rightarrow> pyval \<Rightarrow> world \<Rightarrow> (error + MarkingResult) \<times> world" where
  "get_results env self tma w =
     (case request env self ''GET'' (''/api/v1/tma/'' @ py_str tma @ ''/results'') NoBody w of
        (Inl e, w') \<Rightarrow> (Inl e, w')
      | (Inr response, w') \<Rightarrow> (bind_err (response_json response) from_dict, w'))"

text \<open>
  \<^verbatim>\<open>time.sleep(secs)\<close>: refuses a negative length, otherwise the clock moves on by
  \<open>secs\<close>.
\<close>

definition sleep :: "int \<Rightarrow> world \<Rightarrow> error + world" where
  "sleep secs w = (if secs < 0 then Inl ValueError else Inr (w\<lparr>clock := clock w + real_of_int secs\<rparr>))"

text \<open>
  The \<^verbatim>\<open>while True\<close> loop of \<^verbatim>\<open>wait_for_completion\<close>. Each round reads the clock,
  raises when more than \<open>timeout_secs\<close> seconds have passed since \<open>start_time\<close>, polls the job
  once, returns or raises on a terminal status, and sleeps for \<open>poll_interval\<close> seconds.
  The loop has no bound of its own, so the result is an option: \<open>None\<close> is a loop that
  never ends.
\<close>

partial_function (option) wait_loop ::
  "env \<Rightarrow> AwapClient \<Rightarrow> pyval \<Rightarrow> int \<Rightarrow> int \<Rightarrow> real \<Rightarrow> world \<Rightarrow> ((error + pyval) \<times> world) option" where
  "wait_loop env self job poll_interval timeout_secs start_time w =
     (let elapsed = clock w - start_time
      in if elapsed > real_of_int timeout_secs
         then Some (Inl (AwapTimeoutError
                 (''Job did not complete within '' @ dec_int timeout_secs @ '' seconds'')), w)
         else
           (case get_job_status env self job w of
              (Inl e, w1) \<Rightarrow> Some (Inl e, w1)
            | (Inr status_data, w1) \<Rightarrow>
                (case py_get status_data ''status'' PNone of
                   Inl e \<Rightarrow> Some (Inl e, w1)
                 | Inr status \<Rightarrow>
                     if status = PStr ''completed'' then Some (Inr status, w1)
                     else if status = PStr ''failed''
                     then (case py_get status_data ''error'' (PStr ''Unknown error'') of
                             Inl e \<Rightarrow> Some (Inl e, w1)
                           | Inr err \<Rightarrow>
                               Some (Inl (AwapAPIError (''Job failed: '' @ py_str err) None), w1))
                     else (case sleep poll_interval w1 of
                             Inl e \<Rightarrow> Some (Inl e, w1)
                           | Inr w2 \<Rightarrow>
                               wait_loop env self job poll_interval timeout_secs start_time w2))))"

text \<open>
  \<^verbatim>\<open>wait_for_completion\<close>: \<^verbatim>\<open>timeout = timeout or self.timeout\<close> takes the client's
  timeout when the argument is \<^verbatim>\<open>None\<close> or \<open>0\<close>; the start time is read once.
\<close>

definition wait_for_completion ::
  "env \<Rightarrow> AwapClient \<Rightarrow> pyval \<Rightarrow> int \<Rightarrow> int option \<Rightarrow> world \<Rightarrow> ((error + pyval) \<times> world) option" where
  "wait_for_completion env self job poll_interval timeout_arg w =
     (let timeout_secs = (case timeout_arg of
                            None \<Rightarrow> timeout self
                          | Some t \<Rightarrow> if t = 0 then timeout self else t);
          start_time = clock w
      in wait_loop env self job poll_interval timeout_secs start_time w)"

text \<open>
  \<^verbatim>\<open>mark_tma\<close>: upload, submit, and then either the placeholder result (\<^verbatim>\<open>wait=False\<close>)
  or the wait with the default poll interval of 5 seconds and the fetch of the results.
\<close>

definition mark_tma ::
  "env \<Rightarrow> AwapClient \<Rightarrow> string \<Rightarrow> string \<Rightarrow> string \<Rightarrow> bool \<Rightarrow> world
     \<Rightarrow> ((error + MarkingResult) \<times> world) option" where
  "mark_tma env self file_path student rubric wait w =
     (case upload_tma env self file_path student rubric w of
        (Inl e, w1) \<Rightarrow> Some (Inl e, w1)
      | (Inr tma, w1) \<Rightarrow>
          (case submit_for_marking env self tma rubric True w1 of
             (Inl e, w2) \<Rightarrow> Some (Inl e, w2)
           | (Inr job, w2) \<Rightarrow>
               if \<not> wait
               then Some (Inr \<lparr>tma_id = tma, student_id = PStr student, score = PFloat ''0.0'',
                               grade = PStr [],
                               feedback = \<lparr>summary = PStr [], strengths = PList [],
                                            areas_for_improvement = PList [],
                                            detailed_comments = PList []\<rparr>,
                               marked_at = PStr []\<rparr>, w2)
               else
                 (case wait_for_completion env self job 5 None w2 of
                    None \<Rightarrow> None
                  | Some (Inl e, w3) \<Rightarrow> Some (Inl e, w3)
                  | Some (Inr final_status, w3) \<Rightarrow> Some (get_results env self tma w3))))"

section \<open>The formatter plugin: \<^verbatim>\<open>custom-feedback-formatter/plugin.py\<close>\<close>

subsection \<open>\<^verbatim>\<open>json.dumps(obj, indent=2)\<close>\<close>

text \<open>
  \<^verbatim>\<open>_format_json\<close> is one call of Python's \<^verbatim>\<open>json.dumps\<close>, with its defaults but for
  the indent. The encoder, as the standard library documents and implements it:
  \<^item> a string goes between double quotes; with \<^verbatim>\<open>ensure_ascii\<close> every character outside
    the range from space to tilde, the double quote and the backslash are escaped, by a
    short escape where JSON has one and by \<^verbatim>\<open>\uXXXX\<close> otherwise;
  \<^item> a float is printed by \<^verbatim>\<open>float.__repr__\<close>, but for \<^verbatim>\<open>NaN\<close>, \<^verbatim>\<open>Infinity\<close> and
    \<^verbatim>\<open>-Infinity\<close>;
  \<^item> an empty list or dict is \<^verbatim>\<open>[]\<close> or \<^verbatim>\<open>{}\<close>; otherwise every item is on a line
    of its own, indented by \<open>indent\<close> spaces per level, items separated by a comma, key
    and value by a colon and a space.
\<close>

definition hex4 :: "char \<Rightarrow> string" where
  "hex4 c = ''00'' @ hex2 c"

definition json_escape_char :: "char \<Rightarrow> string" where
  "json_escape_char c =
     (if c = CHR 0x5C then bs @ bs
      else if c = CHR 0x22 then bs @ [CHR 0x22]
      else if c = CHR 0x08 then bs @ ''b''
      else if c = CHR 0x0C then bs @ ''f''
      else if c = CHR 0x0A then bs @ ''n''
      else if c = CHR 0x0D then bs @ ''r''
      else if c = CHR 0x09 then bs @ ''t''
      else if 32 \<le> (of_char c :: nat) \<and> (of_char c :: nat) \<le> 126 then [c]
      else bs @ ''u'' @ hex4 c)"

definition encode_basestring_ascii :: "string \<Rightarrow> string" where
  "encode_basestring_ascii s = [CHR 0x22] @ concat (map json_escape_char s) @ [CHR 0x22]"

definition floatstr :: "string \<Rightarrow> string" where
  "floatstr r =
     (if r = ''nan'' then ''NaN''
      else if r = ''inf'' then ''Infinity''
      else if r = ''-inf'' then ''-Infinity''
      else r)"

definition newline_indent :: "nat \<Rightarrow> nat \<Rightarrow> string" where
  "newline_indent indent level = nl @ replicate (indent * level) (CHR '' '')"

fun iterencode :: "nat \<Rightarrow> nat \<Rightarrow> pyval \<Rightarrow> string" where
  "iterencode indent level PNone = ''null''"
| "iterencode indent level (PBool b) = (if b then ''true'' else ''false'')"
| "iterencode indent level (PInt i) = dec_int i"
| "iterencode indent level (PFloat r) = floatstr r"
| "iterencode indent level (PStr s) = encode_basestring_ascii s"
| "iterencode indent level (PList xs) =
     (if xs = [] then ''[]''
      else ''['' @ newline_indent indent (Suc level) @
           join ('','' @ newline_indent indent (Suc level)) (map (iterencode indent (Suc level)) xs) @
           newline_indent indent level @ '']'')"
| "iterencode indent level (PDict kvs) =
     (if kvs = [] then ''{}''
      else ''{'' @ newline_indent indent (Suc level) @
           join ('','' @ newline_indent indent (Suc level))
             (map (\<lambda>kv. encode_basestring_ascii (fst kv) @ '': '' @ iterencode indent (Suc level) (snd kv))
                kvs) @
           newline_indent indent level @ ''}'')"

definition json_dumps :: "nat \<Rightarrow> pyval \<Rightarrow> string" where
  "json_dumps indent obj = iterencode indent 0 obj"

subsection \<open>The templates\<close>

text \<open>The literal text of the HTML and LaTeX templates, cut at the fields they insert.\<close>

definition html_1 :: string where
  \<open>html_1 =
     nl @
     ''<!DOCTYPE html>'' @ nl @
     ''<html>'' @ nl @
     ''<head>'' @ nl @
     ''    <title>Assignment Feedback</title>'' @ nl @
     ''    <style>'' @ nl @
     ''        body { font-family: Arial, sans-serif; max-width: 800px; margin: 0 auto; padding: 20px; }'' @ nl @
     ''        h1 { color: #333; }'' @ nl @
     ''        .grade { font-size: 2em; color: #4CAF50; }'' @ nl @
     ''        .section { margin: 20px 0; }'' @ nl @
     ''        ul { list-style-type: disc; margin-left: 20px; }'' @ nl @
     ''    </style>'' @ nl @
     ''</head>'' @ nl @
     ''<body>'' @ nl @
     ''    <h1>Assignment Feedback</h1>'' @ nl @
     ''    <p><strong>Student ID:</strong> ''\<close>

definition html_2 :: string where
  \<open>html_2 =
     ''</p>'' @ nl @
     ''    <p><strong>Date:</strong> ''\<close>

definition html_3 :: string where
  \<open>html_3 =
     ''</p>'' @ nl @
     nl @
     ''    <div class="section">'' @ nl @
     ''        <h2>Grade</h2>'' @ nl @
     ''        <p class="grade">''\<close>

definition html_4 :: string where
  \<open>html_4 =
     '' (''\<close>

definition html_5 :: string where
  \<open>html_5 =
     ''/100)</p>'' @ nl @
     ''    </div>'' @ nl @
     nl @
     ''    <div class="section">'' @ nl @
     ''        <h2>Summary</h2>'' @ nl @
     ''        <p>''\<close>

definition html_6 :: string where
  \<open>html_6 =
     ''</p>'' @ nl @
     ''    </div>'' @ nl @
     nl @
     ''    <div class="section">'' @ nl @
     ''        <h2>Strengths</h2>'' @ nl @
     ''        <ul>'' @ nl\<close>

definition html_mid :: string where
  \<open>html_mid =
     ''        </ul>'' @ nl @
     ''    </div>'' @ nl @
     nl @
     ''    <div class="section">'' @ nl @
     ''        <h2>Areas for Improvement</h2>'' @ nl @
     ''        <ul>'' @ nl\<close>

definition html_end :: string where
  \<open>html_end =
     ''        </ul>'' @ nl @
     ''    </div>'' @ nl @
     ''</body>'' @ nl @
     ''</html>'' @ nl\<close>

definition latex_1 :: string where
  \<open>latex_1 =
     bs @ ''documentclass{article}'' @ nl @
     bs @ ''usepackage[utf8]{inputenc}'' @ nl @
     bs @ ''usepackage{enumitem}'' @ nl @
     nl @
     bs @ ''title{Assignment Feedback}'' @ nl @
     bs @ ''author{Academic Workflow Suite}'' @ nl @
     bs @ ''date{''\<close>

definition latex_2 :: string where
  \<open>latex_2 =
     ''}'' @ nl @
     nl @
     bs @ ''begin{document}'' @ nl @
     nl @
     bs @ ''maketitle'' @ nl @
     nl @
     bs @ ''section*{Student Information}'' @ nl @
     bs @ ''textbf{Student ID:} ''\<close>

definition latex_3 :: string where
  \<open>latex_3 =
     nl @
     nl @
     bs @ ''section*{Grade}'' @ nl @
     bs @ ''textbf{Score:} ''\<close>

definition latex_4 :: string where
  \<open>latex_4 =
     ''/100 '' @ bs @ bs @ nl @
     bs @ ''textbf{Grade:} ''\<close>

definition latex_5 :: string where
  \<open>latex_5 =
     nl @
     nl @
     bs @ ''section*{Summary}'' @ nl\<close>

definition latex_6 :: string where
  \<open>latex_6 =
     nl @
     nl @
     bs @ ''section*{Strengths}'' @ nl @
     bs @ ''begin{itemize}'' @ nl\<close>

definition latex_mid :: string where
  \<open>latex_mid =
     bs @ ''end{itemize}'' @ nl @
     nl @
     bs @ ''section*{Areas for Improvement}'' @ nl @
     bs @ ''begin{itemize}'' @ nl\<close>

definition latex_end :: string where
  \<open>latex_end =
     bs @ ''end{itemize}'' @ nl @
     nl @
     bs @ ''end{document}'' @ nl\<close>

subsection \<open>The formatters\<close>

text \<open>\<^verbatim>\<open>results[a][b]\<close>: two subscriptions, the outer one first.\<close>

definition py_item2 :: "pyval \<Rightarrow> string \<Rightarrow> string \<Rightarrow> error + pyval" where
  "py_item2 v a b = bind_err (py_item v a) (\<lambda>inner. py_item inner b)"

text \<open>\<^verbatim>\<open>s + v\<close> with a string on the left: anything but a string on the right raises.\<close>

fun py_concat :: "string \<Rightarrow> pyval \<Rightarrow> error + string" where
  "py_concat s (PStr t) = Inr (s @ t)"
| "py_concat s v = Inl TypeError"

text \<open>
  Each formatter reads the fields in the order of the source text and appends to
  \<open>output\<close>; a lookup that raises ends it. The loops are folds over what the loop
  expression iterates.
\<close>

definition format_markdown :: "pyval \<Rightarrow> error + string" where
  "format_markdown results =
     (let output = ''# Assignment Feedback'' @ nl @ nl in
      bind_err (py_item results ''student_id'') (\<lambda>v.
      let output = output @ ''**Student ID:** '' @ py_str v @ nl in
      bind_err (py_item results ''marked_at'') (\<lambda>v.
      let output = output @ ''**Date:** '' @ py_str v @ nl @ nl;
          output = output @ ''## Grade'' @ nl @ nl in
      bind_err (py_item results ''score'') (\<lambda>v.
      let output = output @ ''**Score:** '' @ py_str v @ ''/100'' @ nl in
      bind_err (py_item results ''grade'') (\<lambda>v.
      let output = output @ ''**Grade:** '' @ py_str v @ nl @ nl in
      bind_err (py_item2 results ''feedback'' ''summary'') (\<lambda>v.
      let output = output @ ''## Summary'' @ nl @ nl @ py_str v @ nl @ nl;
          output = output @ ''## Strengths'' @ nl @ nl in
      bind_err (bind_err (py_item2 results ''feedback'' ''strengths'') py_iter) (\<lambda>items.
      let output = foldl (\<lambda>output strength. output @ ''- '' @ py_str strength @ nl) output items;
          output = output @ nl @ ''## Areas for Improvement'' @ nl @ nl in
      bind_err (bind_err (py_item2 results ''feedback'' ''areas_for_improvement'') py_iter) (\<lambda>items.
      let output = foldl (\<lambda>output area. output @ ''- '' @ py_str area @ nl) output items in
      Inr output))))))))"

definition format_html :: "pyval \<Rightarrow> error + string" where
  "format_html results =
     bind_err (py_item results ''student_id'') (\<lambda>v_student_id.
     bind_err (py_item results ''marked_at'') (\<lambda>v_marked_at.
     bind_err (py_item results ''grade'') (\<lambda>v_grade.
     bind_err (py_item results ''score'') (\<lambda>v_score.
     bind_err (py_item2 results ''feedback'' ''summary'') (\<lambda>v_summary.
     let output = html_1 @ py_str v_student_id @ html_2 @ py_str v_marked_at @ html_3 @
                  py_str v_grade @ html_4 @ py_str v_score @ html_5 @ py_str v_summary @ html_6 in
     bind_err (bind_err (py_item2 results ''feedback'' ''strengths'') py_iter) (\<lambda>items.
     let output = foldl (\<lambda>output strength.
                     output @ ''            <li>'' @ py_str strength @ ''</li>'' @ nl) output items;
         output = output @ html_mid in
     bind_err (bind_err (py_item2 results ''feedback'' ''areas_for_improvement'') py_iter) (\<lambda>items.
     let output = foldl (\<lambda>output area.
                     output @ ''            <li>'' @ py_str area @ ''</li>'' @ nl) output items;
         output = output @ html_end in
     Inr output)))))))"

definition format_latex :: "pyval \<Rightarrow> error + string" where
  "format_latex results =
     bind_err (py_item results ''marked_at'') (\<lambda>v.
     bind_err (py_concat latex_1 v) (\<lambda>output.
     let output = output @ latex_2 in
     bind_err (py_item results ''student_id'') (\<lambda>v.
     bind_err (py_concat output v) (\<lambda>output.
     let output = output @ latex_3 in
     bind_err (py_item results ''score'') (\<lambda>v.
     let output = output @ py_str v @ latex_4 in
     bind_err (py_item results ''grade'') (\<lambda>v.
     bind_err (py_concat output v) (\<lambda>output.
     let output = output @ latex_5 in
     bind_err (py_item2 results ''feedback'' ''summary'') (\<lambda>v.
     bind_err (py_concat output v) (\<lambda>output.
     let output = output @ latex_6 in
     bind_err (bind_err (py_item2 results ''feedback'' ''strengths'') py_iter) (\<lambda>items.
     let output = foldl (\<lambda>output strength.
                     output @ ''    '' @ bs @ ''item '' @ py_str strength @ nl) output items;
         output = output @ latex_mid in
     bind_err (bind_err (py_item2 results ''feedback'' ''areas_for_improvement'') py_iter) (\<lambda>items.
     let output = foldl (\<lambda>output area.
                     output @ ''    '' @ bs @ ''item '' @ py_str area @ nl) output items;
         output = output @ latex_end in
     Inr output)))))))))))"

definition format_plain :: "pyval \<Rightarrow> error + string" where
  "format_plain results =
     (let output = ''ASSIGNMENT FEEDBACK'' @ nl;
          output = output @ replicate 50 (CHR ''='') @ nl @ nl in
      bind_err (py_item results ''student_id'') (\<lambda>v.
      let output = output @ ''Student ID: '' @ py_str v @ nl in
      bind_err (py_item results ''marked_at'') (\<lambda>v.
      let output = output @ ''Date: '' @ py_str v @ nl @ nl in
      bind_err (py_item results ''grade'') (\<lambda>v_grade.
      bind_err (py_item results ''score'') (\<lambda>v_score.
      let output = output @ ''GRADE: '' @ py_str v_grade @ '' ('' @ py_str v_score @ ''/100)'' @ nl @ nl in
      bind_err (py_item2 results ''feedback'' ''summary'') (\<lambda>v.
      let output = output @ ''SUMMARY'' @ nl @ replicate 50 (CHR ''-'') @ nl @ py_str v @ nl @ nl;
          output = output @ ''STRENGTHS'' @ nl @ replicate 50 (CHR ''-'') @ nl in
      bind_err (bind_err (py_item2 results ''feedback'' ''strengths'') py_iter) (\<lambda>items.
      let output = foldl (\<lambda>output (i, strength).
                      output @ dec_nat i @ ''. '' @ py_str strength @ nl) output (enumerate 1 items);
          output = output @ nl @ ''AREAS FOR IMPROVEMENT'' @ nl @ replicate 50 (CHR ''-'') @ nl in
      bind_err (bind_err (py_item2 results ''feedback'' ''areas_for_improvement'') py_iter) (\<lambda>items.
      let output = foldl (\<lambda>output (i, area).
                      output @ dec_nat i @ ''. '' @ py_str area @ nl) output (enumerate 1 items) in
      Inr output))))))))"

definition format_json :: "pyval \<Rightarrow> error + string" where
  "format_json results = Inr (json_dumps 2 results)"

subsection \<open>The plugin object\<close>

record FeedbackFormatterPlugin =
  config :: "(string \<times> pyval) list"
  format_type :: pyval

text \<open>
  \<^verbatim>\<open>__init__\<close>: \<^verbatim>\<open>config or {}\<close> turns \<^verbatim>\<open>None\<close> (and the empty dict) into the empty
  dict; the format is the entry \<^verbatim>\<open>'format'\<close> of the configuration, \<^verbatim>\<open>'markdown'\<close>
  without one.
\<close>

definition init :: "(string \<times> pyval) list option \<Rightarrow> FeedbackFormatterPlugin" where
  "init config_arg =
     (let cfg = (case config_arg of None \<Rightarrow> [] | Some c \<Rightarrow> c)
      in \<lparr>config = cfg,
          format_type = (case map_of cfg ''format'' of None \<Rightarrow> PStr ''markdown'' | Some v \<Rightarrow> v)\<rparr>)"

text \<open>
  \<^verbatim>\<open>format_feedback\<close>: the dict of the five formatters, and
  \<^verbatim>\<open>formatters.get(self.format_type, self._format_markdown)\<close>. The keys are strings, so
  no other value finds an entry; a list or a dict as the key cannot be hashed and raises.
\<close>

definition formatters :: "(string \<times> (pyval \<Rightarrow> error + string)) list" where
  "formatters =
     [(''markdown'', format_markdown),
      (''html'', format_html),
      (''latex'', format_latex),
      (''plain'', format_plain),
      (''json'', format_json)]"

definition format_feedback :: "FeedbackFormatterPlugin \<Rightarrow> pyval \<Rightarrow> error + string" where
  "format_feedback self results =
     (case format_type self of
        PList xs \<Rightarrow> Inl TypeError
      | PDict kvs \<Rightarrow> Inl TypeError
      | PStr s \<Rightarrow>
          (case map_of formatters s of
             None \<Rightarrow> format_markdown results
           | Some formatter \<Rightarrow> formatter results)
      | other \<Rightarrow> format_markdown results)"

subsection \<open>\<^verbatim>\<open>json.loads\<close>\<close>

text \<open>
  Reading the text of \<^verbatim>\<open>_format_json\<close> back is Python's \<^verbatim>\<open>json.loads\<close>, the decoder of
  the standard library: JSON as in RFC 8259, and the three constants \<^verbatim>\<open>NaN\<close>,
  \<^verbatim>\<open>Infinity\<close> and \<^verbatim>\<open>-Infinity\<close> besides. White space is blank, tab, line feed and
  carriage return. A number with a fraction or an exponent is a float, any other an int.
  Within the value type of this theory a float is the text \<^verbatim>\<open>repr\<close> prints for it, so
  the float of a numeral is that numeral: exact for the numerals \<^verbatim>\<open>repr\<close> prints, which
  are the ones the encoder writes. A string escape \<^verbatim>\<open>\uXXXX\<close> of a code point from 256 on
  has no character in this theory's strings and is refused.
  The decoder recurses on the nesting of the text; \<open>fuel\<close> bounds the number of nested
  and sequential calls, and \<open>json_loads\<close> starts with more fuel than the text has
  characters.
\<close>

definition is_ws :: "char \<Rightarrow> bool" where
  "is_ws c = (c = CHR '' '' \<or> c = CHR 0x09 \<or> c = CHR 0x0A \<or> c = CHR 0x0D)"

definition skip_ws :: "string \<Rightarrow> string" where
  "skip_ws s = dropWhile is_ws s"

definition is_digit :: "char \<Rightarrow> bool" where
  "is_digit c = (48 \<le> (of_char c :: nat) \<and> (of_char c :: nat) \<le> 57)"

definition digit_val :: "char \<Rightarrow> nat" where
  "digit_val c = of_char c - 48"

definition hex_val :: "char \<Rightarrow> nat option" where
  "hex_val c =
     (let n = (of_char c :: nat)
      in if 48 \<le> n \<and> n \<le> 57 then Some (n - 48)
         else if 97 \<le> n \<and> n \<le> 102 then Some (n - 87)
         else if 65 \<le> n \<and> n \<le> 70 then Some (n - 55)
         else None)"

text \<open>The character of \<^verbatim>\<open>\uXXXX\<close>, from its four hexadecimal digits.\<close>

definition decode_uXXXX :: "char \<Rightarrow> char \<Rightarrow> char \<Rightarrow> char \<Rightarrow> char option" where
  "decode_uXXXX a b c d =
     (case (hex_val a, hex_val b, hex_val c, hex_val d) of
        (Some x3, Some x2, Some x1, Some x0) \<Rightarrow>
          (let uni = ((x3 * 16 + x2) * 16 + x1) * 16 + x0
           in if uni < 256 then Some (char_of uni) else None)
      | other \<Rightarrow> None)"

text \<open>The table \<^verbatim>\<open>BACKSLASH\<close> of the one-letter escapes.\<close>

definition backslash :: "char \<Rightarrow> char option" where
  "backslash esc =
     (if esc = CHR 0x22 then Some (CHR 0x22)
      else if esc = CHR 0x5C then Some (CHR 0x5C)
      else if esc = CHR ''/'' then Some (CHR ''/'')
      else if esc = CHR ''b'' then Some (CHR 0x08)
      else if esc = CHR ''f'' then Some (CHR 0x0C)
      else if esc = CHR ''n'' then Some (CHR 0x0A)
      else if esc = CHR ''r'' then Some (CHR 0x0D)
      else if esc = CHR ''t'' then Some (CHR 0x09)
      else None)"

text \<open>
  \<^verbatim>\<open>scanstring\<close>, strict: from behind the opening quote to the closing one; a raw
  control character, an unknown escape and the end of the text are errors.
\<close>

fun scanstring :: "string \<Rightarrow> (string \<times> string) option" where
  "scanstring [] = None"
| "scanstring (c # cs) =
     (if c = CHR 0x22 then Some ([], cs)
      else if c = CHR 0x5C then
        (case cs of
           [] \<Rightarrow> None
         | esc # cs1 \<Rightarrow>
             if esc = CHR ''u'' then
               (case cs1 of
                  x3 # x2 # x1 # x0 # cs2 \<Rightarrow>
                    (case decode_uXXXX x3 x2 x1 x0 of
                       None \<Rightarrow> None
                     | Some ch \<Rightarrow> map_option (apfst ((#) ch)) (scanstring cs2))
                | other \<Rightarrow> None)
             else
               (case backslash esc of
                  None \<Rightarrow> None
                | Some ch \<Rightarrow> map_option (apfst ((#) ch)) (scanstring cs1)))
      else if (of_char c :: nat) < 32 then None
      else map_option (apfst ((#) c)) (scanstring cs))"

text \<open>
  \<^verbatim>\<open>NUMBER_RE\<close>: an integer part (an optional minus, then one zero or a digit from 1 to 9
  and more digits), an optional fraction (a dot and digits) and an optional exponent
  (\<^verbatim>\<open>e\<close> or \<^verbatim>\<open>E\<close>, an optional sign and digits); each part is as long as it can be.
\<close>

definition match_integer :: "string \<Rightarrow> (string \<times> string) option" where
  "match_integer s =
     (let sign = (if s \<noteq> [] \<and> hd s = CHR ''-'' then ''-'' else []);
          s1 = drop (length sign) s
      in case s1 of
           [] \<Rightarrow> None
         | c # cs \<Rightarrow>
             if c = CHR ''0'' then Some (sign @ ''0'', cs)
             else if is_digit c then Some (sign @ c # takeWhile is_digit cs, dropWhile is_digit cs)
             else None)"

definition match_frac :: "string \<Rightarrow> string \<times> string" where
  "match_frac s =
     (case s of
        c # cs \<Rightarrow>
          if c = CHR ''.'' \<and> takeWhile is_digit cs \<noteq> []
          then (c # takeWhile is_digit cs, dropWhile is_digit cs)
          else ([], s)
      | [] \<Rightarrow> ([], s))"

definition match_exp :: "string \<Rightarrow> string \<times> string" where
  "match_exp s =
     (case s of
        c # cs \<Rightarrow>
          (let sign = (if cs \<noteq> [] \<and> (hd cs = CHR ''-'' \<or> hd cs = CHR ''+'') then [hd cs] else []);
               cs1 = drop (length sign) cs
           in if (c = CHR ''e'' \<or> c = CHR ''E'') \<and> takeWhile is_digit cs1 \<noteq> []
              then (c # sign @ takeWhile is_digit cs1, dropWhile is_digit cs1)
              else ([], s))
      | [] \<Rightarrow> ([], s))"

text \<open>\<^verbatim>\<open>int(text)\<close> on an integer part.\<close>

definition nat_of_dec :: "string \<Rightarrow> nat" where
  "nat_of_dec ds = foldl (\<lambda>acc c. 10 * acc + digit_val c) 0 ds"

definition int_of_dec :: "string \<Rightarrow> int" where
  "int_of_dec s =
     (if s \<noteq> [] \<and> hd s = CHR ''-'' then - int (nat_of_dec (tl s)) else int (nat_of_dec s))"

definition match_number :: "string \<Rightarrow> (pyval \<times> string) option" where
  "match_number s =
     (case match_integer s of
        None \<Rightarrow> None
      | Some (integer, s1) \<Rightarrow>
          (let (frac, s2) = match_frac s1;
               (exp, s3) = match_exp s2
           in if frac \<noteq> [] \<or> exp \<noteq> []
              then Some (PFloat (integer @ frac @ exp), s3)
              else Some (PInt (int_of_dec integer), s3)))"

text \<open>
  \<^verbatim>\<open>s[idx:idx+n] == word\<close>: the rest of the text behind \<open>word\<close>, if the text starts
  with it.
\<close>

definition strip_prefix :: "string \<Rightarrow> string \<Rightarrow> string option" where
  "strip_prefix word s = (if take (length word) s = word then Some (drop (length word) s) else None)"

text \<open>
  \<^verbatim>\<open>dict(pairs)\<close>: a key that comes again keeps its place and takes the later value.
\<close>

fun dict_set :: "(string \<times> pyval) list \<Rightarrow> string \<Rightarrow> pyval \<Rightarrow> (string \<times> pyval) list" where
  "dict_set [] k v = [(k, v)]"
| "dict_set ((k', v') # kvs) k v = (if k' = k then (k, v) # kvs else (k', v') # dict_set kvs k v)"

definition dict_of_pairs :: "(string \<times> pyval) list \<Rightarrow> (string \<times> pyval) list" where
  "dict_of_pairs pairs = foldl (\<lambda>d kv. dict_set d (fst kv) (snd kv)) [] pairs"

text \<open>
  \<^verbatim>\<open>scan_once\<close> reads one value at the start of the text and returns it with the rest
  of the text; \<open>parse_items\<close> is the loop of \<^verbatim>\<open>JSONArray\<close> and \<open>parse_members\<close> the
  loop of \<^verbatim>\<open>JSONObject\<close>, each from its first item on. \<open>None\<close> is a
  \<^verbatim>\<open>JSONDecodeError\<close>.
\<close>

fun scan_once :: "nat \<Rightarrow> string \<Rightarrow> (pyval \<times> string) option"
  and parse_items :: "nat \<Rightarrow> string \<Rightarrow> (pyval list \<times> string) option"
  and parse_members :: "nat \<Rightarrow> string \<Rightarrow> ((string \<times> pyval) list \<times> string) option" where
  "scan_once 0 s = None"
| "scan_once (Suc fuel) [] = None"
| "scan_once (Suc fuel) (c # cs) =
     (if c = CHR 0x22 then map_option (apfst PStr) (scanstring cs)
      else if c = CHR ''{'' then
        (case skip_ws cs of
           [] \<Rightarrow> None
         | c1 # cs1 \<Rightarrow>
             if c1 = CHR ''}'' then Some (PDict [], cs1)
             else map_option (apfst (\<lambda>pairs. PDict (dict_of_pairs pairs))) (parse_members fuel (c1 # cs1)))
      else if c = CHR ''['' then
        (case skip_ws cs of
           [] \<Rightarrow> None
         | c1 # cs1 \<Rightarrow>
             if c1 = CHR '']'' then Some (PList [], cs1)
             else map_option (apfst PList) (parse_items fuel (c1 # cs1)))
      else if c = CHR ''n'' \<and> strip_prefix ''null'' (c # cs) \<noteq> None
        then Some (PNone, drop 4 (c # cs))
      else if c = CHR ''t'' \<and> strip_prefix ''true'' (c # cs) \<noteq> None
        then Some (PBool True, drop 4 (c # cs))
      else if c = CHR ''f'' \<and> strip_prefix ''false'' (c # cs) \<noteq> None
        then Some (PBool False, drop 5 (c # cs))
      else
        (case match_number (c # cs) of
           Some r \<Rightarrow> Some r
         | None \<Rightarrow>
             if c = CHR ''N'' \<and> strip_prefix ''NaN'' (c # cs) \<noteq> None
               then Some (PFloat ''nan'', drop 3 (c # cs))
             else if c = CHR ''I'' \<and> strip_prefix ''Infinity'' (c # cs) \<noteq> None
               then Some (PFloat ''inf'', drop 8 (c # cs))
             else if c = CHR ''-'' \<and> strip_prefix ''-Infinity'' (c # cs) \<noteq> None
               then Some (PFloat ''-inf'', drop 9 (c # cs))
             else None))"
| "parse_items 0 s = None"
| "parse_items (Suc fuel) s =
     (case scan_once fuel s of
        None \<Rightarrow> None
      | Some (v, s1) \<Rightarrow>
          (case skip_ws s1 of
             [] \<Rightarrow> None
           | c # s2 \<Rightarrow>
               if c = CHR '']'' then Some ([v], s2)
               else if c = CHR '','' then
                 map_option (apfst ((#) v)) (parse_items fuel (skip_ws s2))
               else None))"
| "parse_members 0 s = None"
| "parse_members (Suc fuel) s =
     (case s of
        [] \<Rightarrow> None
      | q # s1 \<Rightarrow>
          if q \<noteq> CHR 0x22 then None
          else
            (case scanstring s1 of
               None \<Rightarrow> None
             | Some (key, s2) \<Rightarrow>
                 (case skip_ws s2 of
                    [] \<Rightarrow> None
                  | colon # s3 \<Rightarrow>
                      if colon \<noteq> CHR '':'' then None
                      else
                        (case scan_once fuel (skip_ws s3) of
                           None \<Rightarrow> None
                         | Some (v, s4) \<Rightarrow>
                             (case skip_ws s4 of
                                [] \<Rightarrow> None
                              | c # s5 \<Rightarrow>
                                  if c = CHR ''}'' then Some ([(key, v)], s5)
                                  else if c = CHR '','' then
                                    map_option (apfst ((#) (key, v))) (parse_members fuel (skip_ws s5))
                                  else None)))))"

text \<open>
  \<^verbatim>\<open>json.loads\<close>: white space, one value, white space, and the end of the text.
\<close>

definition json_loads :: "string \<Rightarrow> error + pyval" where
  "json_loads s =
     (case scan_once (Suc (length s)) (skip_ws s) of
        None \<Rightarrow> Inl JSONDecodeError
      | Some (obj, rest) \<Rightarrow> if skip_ws rest = [] then Inr obj else Inl JSONDecodeError)"

section \<open>Notions used in the statements\<close>

subsection \<open>Runs of the client\<close>

text \<open>What a run returned, when it ended, and which requests it had sent by then.\<close>

definition outcome :: "('a \<times> world) option \<Rightarrow> 'a option" where
  "outcome run = map_option fst run"

definition finish_time :: "('a \<times> world) option \<Rightarrow> real option" where
  "finish_time run = map_option (\<lambda>rw. clock (snd rw)) run"

definition requests_sent :: "('a \<times> world) option \<Rightarrow> http_request list option" where
  "requests_sent run = map_option (\<lambda>rw. sent (snd rw)) run"

text \<open>A run that ends with \<^verbatim>\<open>AwapTimeoutError\<close> while the clock is before \<open>deadline\<close>.\<close>

definition raises_timeout_before :: "real \<Rightarrow> ((error + pyval) \<times> world) option \<Rightarrow> bool" where
  "raises_timeout_before deadline run =
     (case run of
        Some (Inl (AwapTimeoutError msg), w') \<Rightarrow> clock w' < deadline
      | other \<Rightarrow> False)"

text \<open>The message of the \<^verbatim>\<open>AwapAPIError\<close> that a run ended with, if it ended with one.\<close>

definition api_error_message :: "((error + 'a) \<times> world) option \<Rightarrow> string option" where
  "api_error_message run =
     (case run of
        Some (Inl (AwapAPIError msg code), w') \<Rightarrow> Some msg
      | other \<Rightarrow> None)"

text \<open>The one request of \<^verbatim>\<open>get_job_status\<close>.\<close>

definition poll_request :: "AwapClient \<Rightarrow> pyval \<Rightarrow> http_request" where
  "poll_request self job =
     \<lparr>http_method = ''GET'', http_url = api_url self @ ''/api/v1/jobs/'' @ py_str job,
      http_payload = NoBody\<rparr>"

text \<open>
  The world at the start of round \<open>k\<close> of the loop (counted from 0), if there is such a
  round: each of the rounds before it began within the deadline, polled the job, was
  answered with an object whose status is neither \<^verbatim>\<open>completed\<close> nor \<^verbatim>\<open>failed\<close>, and slept.
\<close>

fun round_start ::
  "env \<Rightarrow> AwapClient \<Rightarrow> pyval \<Rightarrow> int \<Rightarrow> int \<Rightarrow> real \<Rightarrow> nat \<Rightarrow> world \<Rightarrow> world option" where
  "round_start env self job poll_interval timeout_secs start_time 0 w = Some w"
| "round_start env self job poll_interval timeout_secs start_time (Suc k) w =
     (if clock w - start_time > real_of_int timeout_secs \<or> poll_interval < 0 then None
      else
        (case get_job_status env self job w of
           (Inr (PDict d), w1) \<Rightarrow>
             if map_of d ''status'' = Some (PStr ''completed'') \<or>
                map_of d ''status'' = Some (PStr ''failed'')
             then None
             else round_start env self job poll_interval timeout_secs start_time k
                    (w1\<lparr>clock := clock w1 + real_of_int poll_interval\<rparr>)
         | other \<Rightarrow> None))"

text \<open>The fields that \<^verbatim>\<open>from_dict\<close> reads with \<^verbatim>\<open>data[...]\<close>, in its order.\<close>

definition top_level_fields :: "string list" where
  "top_level_fields = [''tma_id'', ''student_id'', ''score'', ''grade'', ''marked_at'']"

subsection \<open>Records for the formatter\<close>

text \<open>
  The fields that the four text formatters read: five entries of the record, and three
  entries of its \<^verbatim>\<open>feedback\<close>. (\<^verbatim>\<open>tma_id\<close> and \<^verbatim>\<open>detailed_comments\<close> are read by none.)
  \<open>lacks_field d\<close>: the record \<open>d\<close> misses one of the five, or its feedback is a dict
  that misses one of the three.
\<close>

definition record_fields :: "string list" where
  "record_fields = [''student_id'', ''marked_at'', ''score'', ''grade'', ''feedback'']"

definition feedback_fields :: "string list" where
  "feedback_fields = [''summary'', ''strengths'', ''areas_for_improvement'']"

definition lacks_field :: "(string \<times> pyval) list \<Rightarrow> bool" where
  "lacks_field d =
     ((\<exists>k \<in> set record_fields. map_of d k = None) \<or>
      (case map_of d ''feedback'' of
         Some (PDict fb) \<Rightarrow> \<exists>k \<in> set feedback_fields. map_of fb k = None
       | other \<Rightarrow> False))"

text \<open>
  The errors that a record \<open>d\<close> can make a text formatter raise: \<^verbatim>\<open>KeyError\<close> for a
  field that \<open>d\<close> lacks, or \<^verbatim>\<open>TypeError\<close> (for a field of the wrong type).
\<close>

definition field_error :: "(string \<times> pyval) list \<Rightarrow> error \<Rightarrow> bool" where
  "field_error d e =
     (e = TypeError \<or>
      (\<exists>k \<in> set record_fields. map_of d k = None \<and> e = KeyError k) \<or>
      (case map_of d ''feedback'' of
         Some (PDict fb) \<Rightarrow> \<exists>k \<in> set feedback_fields. map_of fb k = None \<and> e = KeyError k
       | other \<Rightarrow> False))"

text \<open>The plugin configured for a style.\<close>

definition plugin_for :: "string \<Rightarrow> FeedbackFormatterPlugin" where
  "plugin_for style = init (Some [(''format'', PStr style)])"

subsection \<open>Values and their JSON text\<close>

text \<open>
  The values that Python can hold: no dict has a key twice, and a float is spelled as
  \<^verbatim>\<open>repr\<close> spells one: \<^verbatim>\<open>nan\<close>, \<^verbatim>\<open>inf\<close>, \<^verbatim>\<open>-inf\<close>, or a numeral with a fraction or
  an exponent.
\<close>

definition is_float_repr :: "string \<Rightarrow> bool" where
  "is_float_repr r =
     (r = ''nan'' \<or> r = ''inf'' \<or> r = ''-inf'' \<or> match_number r = Some (PFloat r, []))"

fun well_formed :: "pyval \<Rightarrow> bool" where
  "well_formed (PFloat r) = is_float_repr r"
| "well_formed (PList xs) = list_all well_formed xs"
| "well_formed (PDict kvs) = (distinct (map fst kvs) \<and> list_all (\<lambda>kv. well_formed (snd kv)) kvs)"
| "well_formed v = True"

text \<open>
  Python's \<^verbatim>\<open>==\<close> between two values that share no object, as a record and what
  \<^verbatim>\<open>json.loads\<close> builds are. \<^verbatim>\<open>None\<close> equals itself only; \<^verbatim>\<open>bool\<close> and \<^verbatim>\<open>int\<close> compare
  as numbers (\<^verbatim>\<open>True == 1\<close>); two floats are equal when they are the same float or both
  zero, and \<^verbatim>\<open>nan\<close> equals no float, itself included; lists are equal when they are as
  long and equal item by item; dicts when they have as many keys and equal values under
  each key. The result is an option because a float is known here by its \<^verbatim>\<open>repr\<close> text
  only: whether a finite float equals an \<^verbatim>\<open>int\<close> is left open (\<open>None\<close>). A list or dict
  with one unequal pair is unequal whatever the other pairs are.
\<close>

definition both :: "bool option \<Rightarrow> bool option \<Rightarrow> bool option" where
  "both a b =
     (if a = Some False \<or> b = Some False then Some False
      else if a = Some True \<and> b = Some True then Some True
      else None)"

definition float_eq :: "string \<Rightarrow> string \<Rightarrow> bool" where
  "float_eq a b =
     (a \<noteq> ''nan'' \<and> b \<noteq> ''nan'' \<and>
      (a = b \<or> ((a = ''0.0'' \<or> a = ''-0.0'') \<and> (b = ''0.0'' \<or> b = ''-0.0''))))"

definition int_float_eq :: "int \<Rightarrow> string \<Rightarrow> bool option" where
  "int_float_eq i r = (if r = ''nan'' \<or> r = ''inf'' \<or> r = ''-inf'' then Some False else None)"

fun py_eq :: "pyval \<Rightarrow> pyval \<Rightarrow> bool option"
  and py_eq_list :: "pyval list \<Rightarrow> pyval list \<Rightarrow> bool option"
  and py_eq_items :: "(string \<times> pyval) list \<Rightarrow> (string \<times> pyval) list \<Rightarrow> bool option" where
  "py_eq PNone PNone = Some True"
| "py_eq (PBool a) (PBool b) = Some (a = b)"
| "py_eq (PBool a) (PInt j) = Some ((if a then 1 else 0) = j)"
| "py_eq (PBool a) (PFloat r) = int_float_eq (if a then 1 else 0) r"
| "py_eq (PInt i) (PBool b) = Some (i = (if b then 1 else 0))"
| "py_eq (PInt i) (PInt j) = Some (i = j)"
| "py_eq (PInt i) (PFloat r) = int_float_eq i r"
| "py_eq (PFloat r) (PBool b) = int_float_eq (if b then 1 else 0) r"
| "py_eq (PFloat r) (PInt j) = int_float_eq j r"
| "py_eq (PFloat r) (PFloat q) = Some (float_eq r q)"
| "py_eq (PStr s) (PStr t) = Some (s = t)"
| "py_eq (PList xs) (PList ys) = (if length xs \<noteq> length ys then Some False else py_eq_list xs ys)"
| "py_eq (PDict a) (PDict b) = (if length a \<noteq> length b then Some False else py_eq_items a b)"
| "py_eq v v' = Some False"
| "py_eq_list (x # xs) (y # ys) = both (py_eq x y) (py_eq_list xs ys)"
| "py_eq_list xs ys = Some (xs = [] \<and> ys = [])"
| "py_eq_items [] b = Some True"
| "py_eq_items (kv # kvs) b =
     (case map_of b (fst kv) of
        None \<Rightarrow> Some False
      | Some v' \<Rightarrow> both (py_eq (snd kv) v') (py_eq_items kvs b))"

text \<open>
  \<^verbatim>\<open>json.loads(format(r, "json")) == r\<close>: whether the text of the \<^verbatim>\<open>json\<close> style is read
  back as a value equal to the record.
\<close>

definition round_trip_eq :: "pyval \<Rightarrow> bool option" where
  "round_trip_eq r =
     (case bind_err (format_feedback (plugin_for ''json'') r) json_loads of
        Inl e \<Rightarrow> Some False
      | Inr r' \<Rightarrow> py_eq r' r)"

text \<open>A value that holds no \<^verbatim>\<open>nan\<close>.\<close>

fun nan_free :: "pyval \<Rightarrow> bool" where
  "nan_free (PFloat r) = (r \<noteq> ''nan'')"
| "nan_free (PList xs) = list_all nan_free xs"
| "nan_free (PDict kvs) = list_all (\<lambda>kv. nan_free (snd kv)) kvs"
| "nan_free v = True"

text \<open>
  In the text of the encoder a value is followed by nothing, a comma or a line feed, and
  it starts with one of a few characters, none of them white space or a closing bracket.
\<close>

definition ends_value :: "string \<Rightarrow> bool" where
  "ends_value rest = (rest = [] \<or> hd rest = CHR '','' \<or> hd rest = CHR 0x0A)"

definition starts_value :: "char \<Rightarrow> bool" where
  "starts_value c = (is_digit c \<or> c \<in> set ''-ntfNI[{'' \<or> c = CHR 0x22)"

section \<open>Sample clients, servers and records\<close>

text \<open>
  Concrete inputs, on which the theorems below are instantiated. Every server answers at
  once and with status 200; the only local file is \<^verbatim>\<open>essay.pdf\<close>.
\<close>

definition client0 :: AwapClient where
  "client0 = \<lparr>api_url = ''http://localhost:8080'', timeout = 300\<rparr>"

definition world0 :: world where
  "world0 = \<lparr>clock = 0, sent = []\<rparr>"

definition ok_response :: "pyval \<Rightarrow> http_response" where
  "ok_response body = \<lparr>status_code = 200, reason = ''OK'', response_url = [], json_body = Some body\<rparr>"

definition essay_fs :: "string \<Rightarrow> fs_entry option" where
  "essay_fs p = (if p = ''essay.pdf'' then Some (RegularFile ''%PDF-1.4'') else None)"

text \<open>A server whose job never leaves \<^verbatim>\<open>pending\<close>.\<close>

definition env_pending :: env where
  "env_pending =
     \<lparr>fs = essay_fs,
      reply = (\<lambda>n req. Responded (ok_response (PDict [(''status'', PStr ''pending'')]))),
      latency = (\<lambda>n. 0)\<rparr>"

text \<open>A server whose job is running at the first poll and completed from the second on.\<close>

definition env_completing :: env where
  "env_completing =
     \<lparr>fs = essay_fs,
      reply = (\<lambda>n req. Responded (ok_response
                 (if n = 0 then PDict [(''status'', PStr ''running'')]
                  else PDict [(''status'', PStr ''completed'')]))),
      latency = (\<lambda>n. 0)\<rparr>"

text \<open>
  A server whose job has failed with the error \<^verbatim>\<open>disk full\<close>, and one where it is still
  running at the first poll and has failed at the second.
\<close>

definition env_failed :: env where
  "env_failed =
     \<lparr>fs = essay_fs,
      reply = (\<lambda>n req. Responded (ok_response
                 (PDict [(''status'', PStr ''failed''), (''error'', PStr ''disk full'')]))),
      latency = (\<lambda>n. 0)\<rparr>"

definition env_failing :: env where
  "env_failing =
     \<lparr>fs = essay_fs,
      reply = (\<lambda>n req. Responded (ok_response
                 (if n = 0 then PDict [(''status'', PStr ''running'')]
                  else PDict [(''status'', PStr ''failed''), (''error'', PStr ''disk full'')]))),
      latency = (\<lambda>n. 0)\<rparr>"

text \<open>
  A server that answers with an empty object, and one that accepts an upload and then a
  submission.
\<close>

definition env_no_handle :: env where
  "env_no_handle =
     \<lparr>fs = essay_fs,
      reply = (\<lambda>n req. Responded (ok_response (PDict []))),
      latency = (\<lambda>n. 0)\<rparr>"

text \<open>A server that answers with the empty JSON array.\<close>

definition env_array_body :: env where
  "env_array_body =
     \<lparr>fs = essay_fs,
      reply = (\<lambda>n req. Responded (ok_response (PList []))),
      latency = (\<lambda>n. 0)\<rparr>"

definition env_accepting :: env where
  "env_accepting =
     \<lparr>fs = essay_fs,
      reply = (\<lambda>n req. Responded (ok_response
                 (if n = 0 then PDict [(''tma_id'', PStr ''tma_123456'')]
                  else PDict [(''job_id'', PStr ''job_1'')]))),
      latency = (\<lambda>n. 0)\<rparr>"

text \<open>
  The record of the plugin's own example, and a server that answers with it; the same
  record without the feedback object, and without the feedback object and the grade.
\<close>

definition sample_results :: pyval where
  "sample_results =
     PDict [(''tma_id'', PStr ''tma_123456''),
            (''student_id'', PStr ''student001''),
            (''score'', PInt 85),
            (''grade'', PStr ''B+''),
            (''marked_at'', PStr ''2024-01-01T00:00:00''),
            (''feedback'', PDict
               [(''summary'', PStr ''Good work overall with clear arguments and strong evidence.''),
                (''strengths'', PList [PStr ''Clear thesis statement'', PStr ''Logical structure'']),
                (''areas_for_improvement'', PList [PStr ''Consider counterarguments''])])]"

definition env_results :: env where
  "env_results =
     \<lparr>fs = essay_fs,
      reply = (\<lambda>n req. Responded (ok_response sample_results)),
      latency = (\<lambda>n. 0)\<rparr>"

definition bare_results :: "(string \<times> pyval) list" where
  "bare_results =
     [(''tma_id'', PStr ''tma_123456''),
      (''student_id'', PStr ''student001''),
      (''score'', PInt 85),
      (''grade'', PStr ''B+''),
      (''marked_at'', PStr ''2024-01-01T00:00:00'')]"

definition ungraded_results :: "(string \<times> pyval) list" where
  "ungraded_results =
     [(''tma_id'', PStr ''tma_123456''),
      (''student_id'', PStr ''student001''),
      (''score'', PInt 85),
      (''marked_at'', PStr ''2024-01-01T00:00:00'')]"

text \<open>A record whose score is \<^verbatim>\<open>float('nan')\<close>.\<close>

definition nan_results :: pyval where
  "nan_results =
     PDict [(''tma_id'', PStr ''tma_123456''),
            (''student_id'', PStr ''student001''),
            (''score'', PFloat ''nan''),
            (''grade'', PStr ''B+'')]"

text \<open>A record with a float score, a text with characters that JSON escapes, and empty lists.\<close>

definition float_results :: pyval where
  "float_results =
     PDict [(''tma_id'', PStr ''tma_123456''),
            (''student_id'', PStr ''student001''),
            (''score'', PFloat ''85.5''),
            (''grade'', PStr ''B+''),
            (''marked_at'', PStr ''2024-01-01T00:00:00''),
            (''feedback'', PDict
               [(''summary'', PStr (''Good work: '' @ [CHR 0x22] @ ''clear'' @ [CHR 0x22, CHR 0x0A, CHR 0xE9])),
                (''strengths'', PList [PStr ''Clear thesis statement'']),
                (''areas_for_improvement'', PList []),
                (''detailed_comments'', PList [PNone, PBool True, PInt (- 3)])])]"

section \<open>Properties of the SDK\<close>

subsection \<open>Auxiliary facts\<close>

lemma bind_err_simps [simp]:
  "bind_err (Inl e) f = Inl e"
  "bind_err (Inr x) f = f x"
  by (simp_all add: bind_err_def)

lemma raise_for_status_2xx:
  "200 \<le> status_code r \<Longrightarrow> status_code r < 300 \<Longrightarrow> raise_for_status r = None"
  by (simp add: raise_for_status_def)

text \<open>A request that is answered with a status outside 400..599 returns the response.\<close>

lemma request_ok:
  "reply env (length (sent w))
     \<lparr>http_method = method, http_url = api_url self @ endpoint, http_payload = body\<rparr> = Responded r \<Longrightarrow>
   raise_for_status r = None \<Longrightarrow>
   request env self method endpoint body w =
     (Inr r, w\<lparr>clock := clock w + latency env (length (sent w)),
               sent := sent w @ [\<lparr>http_method = method, http_url = api_url self @ endpoint,
                                   http_payload = body\<rparr>]\<rparr>)"
  by (simp add: request_def Let_def)

text \<open>Whatever the answer, a request is logged once and takes its latency.\<close>

lemma request_world:
  "snd (request env self method endpoint body w) =
     w\<lparr>clock := clock w + latency env (length (sent w)),
       sent := sent w @ [\<lparr>http_method = method, http_url = api_url self @ endpoint,
                           http_payload = body\<rparr>]\<rparr>"
  by (simp add: request_def Let_def split: http_outcome.splits option.splits)

text \<open>
  An HTTP error is caught with a response that is not \<^verbatim>\<open>ok\<close>, so the status code that
  \<^verbatim>\<open>_request\<close> hands to \<^verbatim>\<open>AwapAPIError\<close> is always \<^verbatim>\<open>None\<close>.
\<close>

lemma request_error_has_no_status_code:
  "fst (request env self method endpoint body w) = Inl (AwapAPIError msg code) \<Longrightarrow> code = None"
  by (auto simp: request_def Let_def response_ok_def split: http_outcome.splits option.splits)

lemma upload_tma_sent:
  assumes "upload_tma env self file_path student rubric w = (Inr tma, w1)"
  shows "\<exists>f. fs env file_path = Some (RegularFile f) \<and>
     sent w1 = sent w @
       [\<lparr>http_method = ''POST'', http_url = api_url self @ ''/api/v1/tma/upload'',
         http_payload = Multipart (basename file_path) f ''application/pdf''
                          [(''student_id'', student), (''rubric'', rubric)]\<rparr>]"
proof (cases "fs env file_path")
  case None
  with assms show ?thesis by (simp add: upload_tma_def)
next
  case (Some entry)
  show ?thesis
  proof (cases entry)
    case (RegularFile f)
    let ?files = "Multipart (basename file_path) f ''application/pdf''
                    [(''student_id'', student), (''rubric'', rubric)]"
    obtain r w' where req: "request env self ''POST'' ''/api/v1/tma/upload'' ?files w = (r, w')"
      by (cases "request env self ''POST'' ''/api/v1/tma/upload'' ?files w")
    from req have "w' = snd (request env self ''POST'' ''/api/v1/tma/upload'' ?files w)"
      by simp
    then have w': "sent w' = sent w @
        [\<lparr>http_method = ''POST'', http_url = api_url self @ ''/api/v1/tma/upload'',
          http_payload = ?files\<rparr>]"
      by (simp add: request_world)
    from assms Some RegularFile req have "w1 = w'"
      by (auto simp: upload_tma_def Let_def split: sum.splits if_splits)
    with w' Some RegularFile show ?thesis by simp
  qed (use assms Some in \<open>simp_all add: upload_tma_def\<close>)
qed

lemma submit_for_marking_sent:
  assumes "submit_for_marking env self tma rubric auto_feedback w = (r, w1)"
  shows "sent w1 = sent w @
     [\<lparr>http_method = ''POST'', http_url = api_url self @ ''/api/v1/tma/'' @ py_str tma @ ''/mark'',
       http_payload = JsonBody (PDict [(''rubric'', PStr rubric),
                                       (''auto_feedback'', PBool auto_feedback)])\<rparr>]"
proof -
  let ?body = "JsonBody (PDict [(''rubric'', PStr rubric), (''auto_feedback'', PBool auto_feedback)])"
  let ?ep = "''/api/v1/tma/'' @ py_str tma @ ''/mark''"
  obtain r' w' where req: "request env self ''POST'' ?ep ?body w = (r', w')"
    by (cases "request env self ''POST'' ?ep ?body w")
  from req have "w' = snd (request env self ''POST'' ?ep ?body w)"
    by simp
  then have w': "sent w' = sent w @
      [\<lparr>http_method = ''POST'', http_url = api_url self @ ?ep, http_payload = ?body\<rparr>]"
    by (simp add: request_world)
  from assms req have "w1 = w'"
    by (auto simp: submit_for_marking_def split: sum.splits if_splits)
  with w' show ?thesis by simp
qed

text \<open>A poll that is answered with a JSON body returns that body.\<close>

lemma get_job_status_ok:
  assumes "reply env (length (sent w)) (poll_request self job) = Responded r"
    and "raise_for_status r = None"
    and "json_body r = Some data"
  shows "get_job_status env self job w =
           (Inr data, w\<lparr>clock := clock w + latency env (length (sent w)),
                        sent := sent w @ [poll_request self job]\<rparr>)"
  using assms
  by (simp add: get_job_status_def request_ok [where r = r] poll_request_def response_json_def)

text \<open>One round of the loop, case by case.\<close>

lemma wait_loop_expired:
  "clock w - start_time > real_of_int timeout_secs \<Longrightarrow>
   wait_loop env self job poll_interval timeout_secs start_time w =
     Some (Inl (AwapTimeoutError
             (''Job did not complete within '' @ dec_int timeout_secs @ '' seconds'')), w)"
  by (subst wait_loop.simps) (simp add: Let_def)

lemma wait_loop_completed:
  "\<not> clock w - start_time > real_of_int timeout_secs \<Longrightarrow>
   get_job_status env self job w = (Inr (PDict d), w1) \<Longrightarrow>
   map_of d ''status'' = Some (PStr ''completed'') \<Longrightarrow>
   wait_loop env self job poll_interval timeout_secs start_time w =
     Some (Inr (PStr ''completed''), w1)"
  by (subst wait_loop.simps) (simp add: Let_def)

lemma wait_loop_failed:
  "\<not> clock w - start_time > real_of_int timeout_secs \<Longrightarrow>
   get_job_status env self job w = (Inr (PDict d), w1) \<Longrightarrow>
   map_of d ''status'' = Some (PStr ''failed'') \<Longrightarrow>
   wait_loop env self job poll_interval timeout_secs start_time w =
     Some (Inl (AwapAPIError
             (''Job failed: '' @
              py_str (case map_of d ''error'' of None \<Rightarrow> PStr ''Unknown error'' | Some v \<Rightarrow> v))
             None), w1)"
  by (subst wait_loop.simps) (simp add: Let_def)

lemma wait_loop_pending:
  assumes "\<not> clock w - start_time > real_of_int timeout_secs"
    and "get_job_status env self job w = (Inr (PDict d), w1)"
    and "map_of d ''status'' \<noteq> Some (PStr ''completed'')"
    and "map_of d ''status'' \<noteq> Some (PStr ''failed'')"
    and "0 \<le> poll_interval"
  shows "wait_loop env self job poll_interval timeout_secs start_time w =
         wait_loop env self job poll_interval timeout_secs start_time
           (w1\<lparr>clock := clock w1 + real_of_int poll_interval\<rparr>)"
proof -
  have status: "py_get (PDict d) ''status'' PNone \<noteq> Inr (PStr ''completed'')"
    "py_get (PDict d) ''status'' PNone \<noteq> Inr (PStr ''failed'')"
    using assms(3,4) by (auto split: option.splits)
  show ?thesis
    using assms(1,2,5) status
    by (subst wait_loop.simps) (simp add: Let_def sleep_def split: sum.splits)
qed

text \<open>All rounds before round \<open>k\<close> leave the result of the loop to the rounds from \<open>k\<close> on.\<close>

lemma round_start_wait_loop:
  "round_start env self job poll_interval timeout_secs start_time k w = Some w' \<Longrightarrow>
   wait_loop env self job poll_interval timeout_secs start_time w =
   wait_loop env self job poll_interval timeout_secs start_time w'"
proof (induction k arbitrary: w)
  case 0
  then show ?case by simp
next
  case (Suc k)
  from Suc.prems have live: "\<not> clock w - start_time > real_of_int timeout_secs" "0 \<le> poll_interval"
    by (auto split: if_splits)
  from Suc.prems live obtain d w1 where poll: "get_job_status env self job w = (Inr (PDict d), w1)"
    and pending: "map_of d ''status'' \<noteq> Some (PStr ''completed'')"
      "map_of d ''status'' \<noteq> Some (PStr ''failed'')"
    and rest: "round_start env self job poll_interval timeout_secs start_time k
                 (w1\<lparr>clock := clock w1 + real_of_int poll_interval\<rparr>) = Some w'"
    by (auto split: if_splits prod.splits sum.splits pyval.splits)
  from wait_loop_pending [OF live(1) poll pending live(2)] Suc.IH [OF rest] show ?case
    by simp
qed

text \<open>
  Partial correctness of the loop, by the induction rule of its definition: a round that
  returns a value returns the status it has just compared with \<^verbatim>\<open>'completed'\<close>, and
  every other round raises or goes on.
\<close>

lemma wait_loop_returns_completed:
  "wait_loop env self job poll_interval timeout_secs start_time w = Some (Inr v, w') \<Longrightarrow>
   v = PStr ''completed''"
proof (rule wait_loop.raw_induct
    [where P = "\<lambda>env self job p t s w0 r. \<forall>v w'. r = (Inr v, w') \<longrightarrow> v = PStr ''completed''",
      rule_format], goal_cases)
  case (1 f env self job p t s w0 r v w')
  show ?case
  proof (cases "clock w0 - s > real_of_int t")
    case True
    with 1 show ?thesis by (auto simp: Let_def)
  next
    case False
    with 1 show ?thesis
      by (auto simp: Let_def split: if_splits prod.splits sum.splits)
  qed
qed auto

subsection \<open>Waiting for completion\<close>

text \<open>
  Claim C1, as the code has it. With \<^verbatim>\<open>poll_interval=5\<close> and \<^verbatim>\<open>timeout=1\<close> (in general,
  with a positive timeout below the poll interval) and a job that the first poll does not
  find terminal, \<^verbatim>\<open>wait_for_completion\<close> raises \<^verbatim>\<open>AwapTimeoutError\<close>, but not within
  about a second: the deadline is checked at the start of a round only, so the first check
  passes, the job is polled once, the loop sleeps for the whole poll interval, and the
  second check raises. The clock then stands at the latency of the one poll plus the poll
  interval after the call.
\<close>

theorem timeout_after_full_poll_interval:
  assumes t: "0 < timeout_secs" "timeout_secs < poll_interval"
    and lat: "0 \<le> latency env (length (sent w))"
    and rep: "reply env (length (sent w)) (poll_request self job) = Responded r"
    and ok: "raise_for_status r = None"
    and body: "json_body r = Some (PDict d)"
    and pending: "map_of d ''status'' \<noteq> Some (PStr ''completed'')"
                 "map_of d ''status'' \<noteq> Some (PStr ''failed'')"
  shows "wait_for_completion env self job poll_interval (Some timeout_secs) w =
           Some (Inl (AwapTimeoutError
                   (''Job did not complete within '' @ dec_int timeout_secs @ '' seconds'')),
                 w\<lparr>clock := clock w + latency env (length (sent w)) + real_of_int poll_interval,
                   sent := sent w @ [poll_request self job]\<rparr>)"
proof -
  let ?w1 = "w\<lparr>clock := clock w + latency env (length (sent w)),
               sent := sent w @ [poll_request self job]\<rparr>"
  let ?w2 = "?w1\<lparr>clock := clock ?w1 + real_of_int poll_interval\<rparr>"
  have poll: "get_job_status env self job w = (Inr (PDict d), ?w1)"
    using rep ok body by (rule get_job_status_ok)
  have "wait_loop env self job poll_interval timeout_secs (clock w) w =
        wait_loop env self job poll_interval timeout_secs (clock w) ?w2"
    using t pending by (intro wait_loop_pending [OF _ poll]) simp_all
  also have "\<dots> = Some (Inl (AwapTimeoutError
      (''Job did not complete within '' @ dec_int timeout_secs @ '' seconds'')), ?w2)"
    using t lat by (intro wait_loop_expired) simp
  finally show ?thesis
    using t by (simp add: wait_for_completion_def Let_def)
qed

theorem timeout_after_full_poll_interval_witness:
  "wait_for_completion env_pending client0 (PStr ''job_1'') 5 (Some 1) world0 =
     Some (Inl (AwapTimeoutError ''Job did not complete within 1 seconds''),
           \<lparr>clock = 5, sent = [poll_request client0 (PStr ''job_1'')]\<rparr>)"
proof -
  have one: "dec_int 1 = ''1''"
    by code_simp
  show ?thesis
    using timeout_after_full_poll_interval
      [where timeout_secs = 1 and poll_interval = 5 and env = env_pending and w = world0
         and self = client0 and job = "PStr ''job_1''"
         and r = "ok_response (PDict [(''status'', PStr ''pending'')])"
         and d = "[(''status'', PStr ''pending'')]"]
    by (simp add: env_pending_def world0_def ok_response_def raise_for_status_def one)
qed

text \<open>
  Claim C1 as stated fails: against the server whose job stays \<^verbatim>\<open>pending\<close> and answers
  at once, the call with \<^verbatim>\<open>poll_interval=5\<close> and \<^verbatim>\<open>timeout=1\<close> raises when the clock
  stands at 5 seconds, not before the poll interval has passed.
\<close>

theorem timeout_within_one_second_counterexample:
  "outcome (wait_for_completion env_pending client0 (PStr ''job_1'') 5 (Some 1) world0) =
     Some (Inl (AwapTimeoutError ''Job did not complete within 1 seconds''))
   \<and> finish_time (wait_for_completion env_pending client0 (PStr ''job_1'') 5 (Some 1) world0) = Some 5
   \<and> \<not> raises_timeout_before (clock world0 + 5)
         (wait_for_completion env_pending client0 (PStr ''job_1'') 5 (Some 1) world0)"
proof -
  let ?w1 = "\<lparr>clock = 0, sent = [poll_request client0 (PStr ''job_1'')]\<rparr>"
  let ?w2 = "\<lparr>clock = 5, sent = [poll_request client0 (PStr ''job_1'')]\<rparr>"
  have one: "dec_int 1 = ''1''"
    by code_simp
  have poll: "get_job_status env_pending client0 (PStr ''job_1'') world0 =
                (Inr (PDict [(''status'', PStr ''pending'')]), ?w1)"
    by (simp add: get_job_status_ok [where r = "ok_response (PDict [(''status'', PStr ''pending'')])"]
          env_pending_def world0_def ok_response_def raise_for_status_def)
  have "wait_loop env_pending client0 (PStr ''job_1'') 5 1 0 world0 =
        wait_loop env_pending client0 (PStr ''job_1'') 5 1 0 ?w2"
    using wait_loop_pending [OF _ poll, where start_time = 0 and timeout_secs = 1 and poll_interval = 5]
    by (simp add: world0_def)
  also have "\<dots> = Some (Inl (AwapTimeoutError ''Job did not complete within 1 seconds''), ?w2)"
    using wait_loop_expired [where w = ?w2 and start_time = 0 and timeout_secs = 1]
    by (simp add: one)
  finally have "wait_for_completion env_pending client0 (PStr ''job_1'') 5 (Some 1) world0 =
      Some (Inl (AwapTimeoutError ''Job did not complete within 1 seconds''), ?w2)"
    by (simp add: wait_for_completion_def world0_def)
  then show ?thesis
    by (simp add: outcome_def finish_time_def raises_timeout_before_def world0_def)
qed

text \<open>
  Claim C2, as the code has it. Take any round of a call of \<^verbatim>\<open>wait_for_completion\<close> that
  starts within the deadline (round \<open>k\<close>, after \<open>k\<close> polls that found the job not
  terminal). If the poll of this round is answered with status \<^verbatim>\<open>failed\<close> and the error
  message \<open>e\<close>, the call raises \<^verbatim>\<open>AwapAPIError\<close>; its message is not \<open>e\<close> alone but
  the text \<^verbatim>\<open>Job failed: \<close> followed by \<open>e\<close>, unchanged.
\<close>

theorem failed_job_message:
  assumes tmo: "timeout_secs = (case timeout_arg of None \<Rightarrow> timeout self
                                | Some t \<Rightarrow> if t = 0 then timeout self else t)"
    and rounds: "round_start env self job poll_interval timeout_secs (clock w_init) k w_init = Some w"
    and live: "\<not> clock w - clock w_init > real_of_int timeout_secs"
    and rep: "reply env (length (sent w)) (poll_request self job) = Responded r"
    and ok: "raise_for_status r = None"
    and body: "json_body r = Some (PDict d)"
    and failed: "map_of d ''status'' = Some (PStr ''failed'')"
    and msg: "map_of d ''error'' = Some (PStr e)"
  shows "wait_for_completion env self job poll_interval timeout_arg w_init =
           Some (Inl (AwapAPIError (''Job failed: '' @ e) None),
                 w\<lparr>clock := clock w + latency env (length (sent w)),
                   sent := sent w @ [poll_request self job]\<rparr>)"
proof -
  have "wait_for_completion env self job poll_interval timeout_arg w_init =
        wait_loop env self job poll_interval timeout_secs (clock w_init) w_init"
    by (simp add: wait_for_completion_def tmo)
  also have "\<dots> = wait_loop env self job poll_interval timeout_secs (clock w_init) w"
    using rounds by (rule round_start_wait_loop)
  also have "\<dots> = Some (Inl (AwapAPIError (''Job failed: '' @ e) None),
                 w\<lparr>clock := clock w + latency env (length (sent w)),
                   sent := sent w @ [poll_request self job]\<rparr>)"
    using wait_loop_failed [OF live get_job_status_ok [OF rep ok body] failed] msg
    by simp
  finally show ?thesis .
qed

theorem failed_job_message_witness:
  "wait_for_completion env_failing client0 (PStr ''job_1'') 5 None world0 =
     Some (Inl (AwapAPIError ''Job failed: disk full'' None),
           \<lparr>clock = 5, sent = [poll_request client0 (PStr ''job_1''), poll_request client0 (PStr ''job_1'')]\<rparr>)"
proof -
  let ?w1 = "\<lparr>clock = 5, sent = [poll_request client0 (PStr ''job_1'')]\<rparr>"
  have poll: "get_job_status env_failing client0 (PStr ''job_1'') world0 =
                (Inr (PDict [(''status'', PStr ''running'')]),
                 \<lparr>clock = 0, sent = [poll_request client0 (PStr ''job_1'')]\<rparr>)"
    by (simp add: get_job_status_ok [where r = "ok_response (PDict [(''status'', PStr ''running'')])"]
          env_failing_def world0_def ok_response_def raise_for_status_def)
  have rounds: "round_start env_failing client0 (PStr ''job_1'') 5 300 (clock world0) 1 world0 = Some ?w1"
    by (simp add: poll)
  show ?thesis
    using failed_job_message
      [where timeout_arg = None and self = client0 and timeout_secs = 300 and env = env_failing
         and job = "PStr ''job_1''" and poll_interval = 5 and k = 1 and w_init = world0 and w = ?w1
         and r = "ok_response (PDict [(''status'', PStr ''failed''), (''error'', PStr ''disk full'')])"
         and d = "[(''status'', PStr ''failed''), (''error'', PStr ''disk full'')]"
         and e = "''disk full''", OF _ rounds]
    by (simp add: client0_def world0_def env_failing_def ok_response_def raise_for_status_def)
qed

text \<open>
  Claim C2 as stated fails: when the server reports \<^verbatim>\<open>failed\<close> with the error
  \<^verbatim>\<open>disk full\<close>, the message of the error raised is \<^verbatim>\<open>Job failed: disk full\<close>, which is
  not exactly the remote message.
\<close>

theorem failed_job_message_verbatim_counterexample:
  "api_error_message (wait_for_completion env_failed client0 (PStr ''job_1'') 5 None world0) =
     Some ''Job failed: disk full''
   \<and> api_error_message (wait_for_completion env_failed client0 (PStr ''job_1'') 5 None world0) \<noteq>
     Some ''disk full''"
proof -
  let ?w1 = "\<lparr>clock = 0, sent = [poll_request client0 (PStr ''job_1'')]\<rparr>"
  have poll: "get_job_status env_failed client0 (PStr ''job_1'') world0 =
                (Inr (PDict [(''status'', PStr ''failed''), (''error'', PStr ''disk full'')]), ?w1)"
    by (simp add: get_job_status_ok
          [where r = "ok_response (PDict [(''status'', PStr ''failed''), (''error'', PStr ''disk full'')])"]
          env_failed_def world0_def ok_response_def raise_for_status_def)
  have "wait_loop env_failed client0 (PStr ''job_1'') 5 300 0 world0 =
          Some (Inl (AwapAPIError ''Job failed: disk full'' None), ?w1)"
    using wait_loop_failed [OF _ poll, where start_time = 0 and timeout_secs = 300]
    by (simp add: world0_def)
  then show ?thesis
    by (simp add: wait_for_completion_def client0_def world0_def api_error_message_def)
qed

text \<open>
  Claim C9. Whenever \<^verbatim>\<open>wait_for_completion\<close> returns a value, the value is the string
  \<^verbatim>\<open>completed\<close>: every other status that ends the loop ends it with an exception.
\<close>

theorem wait_for_completion_returns_completed:
  assumes "wait_for_completion env self job poll_interval timeout_arg w = Some (Inr v, w')"
  shows "v = PStr ''completed''"
  using assms unfolding wait_for_completion_def Let_def
  by (rule wait_loop_returns_completed)

theorem wait_for_completion_returns_completed_witness:
  "outcome (wait_for_completion env_completing client0 (PStr ''job_1'') 5 None world0) =
     Some (Inr (PStr ''completed''))"
proof -
  let ?run = "wait_for_completion env_completing client0 (PStr ''job_1'') 5 None world0"
  let ?w1 = "\<lparr>clock = 0, sent = [poll_request client0 (PStr ''job_1'')]\<rparr>"
  let ?w2 = "\<lparr>clock = 5, sent = [poll_request client0 (PStr ''job_1'')]\<rparr>"
  let ?w3 = "\<lparr>clock = 5, sent = [poll_request client0 (PStr ''job_1''), poll_request client0 (PStr ''job_1'')]\<rparr>"
  have poll1: "get_job_status env_completing client0 (PStr ''job_1'') world0 =
                 (Inr (PDict [(''status'', PStr ''running'')]), ?w1)"
    by (simp add: get_job_status_ok [where r = "ok_response (PDict [(''status'', PStr ''running'')])"]
          env_completing_def world0_def ok_response_def raise_for_status_def)
  have poll2: "get_job_status env_completing client0 (PStr ''job_1'') ?w2 =
                 (Inr (PDict [(''status'', PStr ''completed'')]), ?w3)"
    by (simp add: get_job_status_ok [where r = "ok_response (PDict [(''status'', PStr ''completed'')])"]
          env_completing_def ok_response_def raise_for_status_def)
  have "wait_loop env_completing client0 (PStr ''job_1'') 5 300 0 world0 =
        wait_loop env_completing client0 (PStr ''job_1'') 5 300 0 ?w2"
    using wait_loop_pending [OF _ poll1, where start_time = 0 and timeout_secs = 300 and poll_interval = 5]
    by (simp add: world0_def)
  then have "wait_loop env_completing client0 (PStr ''job_1'') 5 300 0 world0 \<noteq> None"
    using wait_loop_completed [OF _ poll2, where start_time = 0 and timeout_secs = 300 and poll_interval = 5]
    by simp
  moreover have "\<And>e w'. wait_loop env_completing client0 (PStr ''job_1'') 5 300 0 world0 \<noteq> Some (Inl e, w')"
    using wait_loop_pending [OF _ poll1, where start_time = 0 and timeout_secs = 300 and poll_interval = 5]
      wait_loop_completed [OF _ poll2, where start_time = 0 and timeout_secs = 300 and poll_interval = 5]
    by (simp add: world0_def)
  ultimately obtain v w' where ret': "wait_loop env_completing client0 (PStr ''job_1'') 5 300 0 world0 = Some (Inr v, w')"
    by (metis old.prod.exhaust option.exhaust sum.exhaust)
  then have ret: "?run = Some (Inr v, w')"
    by (simp add: wait_for_completion_def client0_def world0_def)
  from wait_for_completion_returns_completed [OF ret] ret show ?thesis
    by (simp add: outcome_def)
qed

subsection \<open>Upload, submit and the whole workflow\<close>

text \<open>
  Claim C5. For a path that does not exist in the local file system, \<^verbatim>\<open>upload_tma\<close>
  raises \<^verbatim>\<open>FileNotFoundError\<close> and leaves the world as it was: the clock has not moved and
  no request has been added to the log, so no HTTP request was issued.
\<close>

theorem upload_tma_missing_file:
  assumes "fs env file_path = None"
  shows "upload_tma env self file_path student rubric w =
           (Inl (FileNotFoundError (''TMA file not found: '' @ file_path)), w)"
  using assms by (simp add: upload_tma_def)

theorem upload_tma_missing_file_witness:
  "upload_tma env_accepting client0 ''/no/such/file.pdf'' ''student001'' ''default'' world0 =
     (Inl (FileNotFoundError ''TMA file not found: /no/such/file.pdf''), world0)"
  using upload_tma_missing_file
    [where env = env_accepting and file_path = "''/no/such/file.pdf''" and self = client0
       and student = "''student001''" and rubric = "''default''" and w = world0]
  by (simp add: env_accepting_def essay_fs_def)

text \<open>
  When the server answers with a 2xx status and a JSON object that lacks the handle,
  \<^verbatim>\<open>upload_tma\<close> (no \<^verbatim>\<open>tma_id\<close>) and \<^verbatim>\<open>submit_for_marking\<close> (no \<^verbatim>\<open>job_id\<close>) raise
  \<^verbatim>\<open>AwapAPIError\<close>, the error class of the SDK for remote errors, and return no handle.
\<close>

lemma missing_handle_in_object:
  "200 \<le> status_code r \<and> status_code r < 300 \<and> json_body r = Some (PDict d) \<longrightarrow>
   (fs env file_path = Some (RegularFile f) \<and>
    reply env (length (sent w))
      \<lparr>http_method = ''POST'', http_url = api_url self @ ''/api/v1/tma/upload'',
       http_payload = Multipart (basename file_path) f ''application/pdf''
                        [(''student_id'', student), (''rubric'', rubric)]\<rparr> = Responded r \<and>
    map_of d ''tma_id'' = None \<longrightarrow>
    fst (upload_tma env self file_path student rubric w) =
      Inl (AwapAPIError ''No TMA ID returned from upload'' None)) \<and>
   (reply env (length (sent w))
      \<lparr>http_method = ''POST'', http_url = api_url self @ ''/api/v1/tma/'' @ py_str tma @ ''/mark'',
       http_payload = JsonBody (PDict [(''rubric'', PStr rubric),
                                       (''auto_feedback'', PBool auto_feedback)])\<rparr> = Responded r \<and>
    map_of d ''job_id'' = None \<longrightarrow>
    fst (submit_for_marking env self tma rubric auto_feedback w) =
      Inl (AwapAPIError ''No job ID returned'' None))"
  by (auto simp: upload_tma_def submit_for_marking_def request_ok raise_for_status_2xx
        response_json_def)

lemma missing_handle_in_object_sample:
  "fst (upload_tma env_no_handle client0 ''essay.pdf'' ''student001'' ''default'' world0) =
     Inl (AwapAPIError ''No TMA ID returned from upload'' None)
   \<and> fst (submit_for_marking env_no_handle client0 (PStr ''tma_123456'') ''default'' True world0) =
     Inl (AwapAPIError ''No job ID returned'' None)"
  using missing_handle_in_object
    [where r = "ok_response (PDict [])" and d = "[]" and env = env_no_handle and w = world0
       and self = client0 and file_path = "''essay.pdf''" and f = "''%PDF-1.4''"
       and student = "''student001''" and rubric = "''default''"
       and tma = "PStr ''tma_123456''" and auto_feedback = True]
  by (simp add: env_no_handle_def essay_fs_def ok_response_def)

text \<open>
  A JSON body that is no object has no \<^verbatim>\<open>get\<close>: whatever the status, the lookup of the
  handle raises \<^verbatim>\<open>AttributeError\<close>, outside the \<^verbatim>\<open>try\<close> of \<^verbatim>\<open>_request\<close>.
\<close>

lemma handle_of_non_object:
  assumes "response_json response = Inr body" and "\<And>d. body \<noteq> PDict d"
  shows "bind_err (response_json response) (\<lambda>result. py_get result key PNone) = Inl AttributeError"
  using assms by (cases body) auto

text \<open>
  Claim C6 asks that every 2xx response whose JSON body lacks the handle makes
  \<^verbatim>\<open>upload_tma\<close> and \<^verbatim>\<open>submit_for_marking\<close> raise \<^verbatim>\<open>AwapAPIError\<close>, as their docstrings
  promise for every failure. The code does so for a body that is an object, and misses the
  body that is none: when the server answers 200 with the empty array, which holds no
  handle, both raise \<^verbatim>\<open>AttributeError\<close>, which is no \<^verbatim>\<open>AwapError\<close>.
\<close>

theorem handle_of_array_body_raises_attribute_error:
  "fst (upload_tma env_array_body client0 ''essay.pdf'' ''student001'' ''default'' world0) =
     Inl AttributeError
   \<and> fst (submit_for_marking env_array_body client0 (PStr ''tma_123456'') ''default'' True world0) =
     Inl AttributeError"
  by (simp add: upload_tma_def submit_for_marking_def request_def Let_def env_array_body_def
        essay_fs_def ok_response_def raise_for_status_def response_json_def)

text \<open>
  Claim C4. When the upload and the submission succeed, \<^verbatim>\<open>mark_tma\<close> with \<^verbatim>\<open>wait=False\<close>
  returns at once, in the world that the submission left: two requests have been sent
  since the call, both of them POST, so there was no poll and no fetch. The result carries
  the real \<^verbatim>\<open>tma_id\<close> and \<^verbatim>\<open>student_id\<close>; every other field is the placeholder: score
  \<^verbatim>\<open>0.0\<close>, empty grade, empty summary, empty lists, empty \<^verbatim>\<open>marked_at\<close>.
\<close>

theorem mark_tma_without_wait:
  assumes up: "upload_tma env self file_path student rubric w = (Inr tma, w1)"
    and sub: "submit_for_marking env self tma rubric True w1 = (Inr job, w2)"
  shows "mark_tma env self file_path student rubric False w =
           Some (Inr \<lparr>tma_id = tma, student_id = PStr student, score = PFloat ''0.0'',
                      grade = PStr [],
                      feedback = \<lparr>summary = PStr [], strengths = PList [],
                                   areas_for_improvement = PList [],
                                   detailed_comments = PList []\<rparr>,
                      marked_at = PStr []\<rparr>, w2)
         \<and> length (sent w2) = length (sent w) + 2
         \<and> list_all (\<lambda>req. http_method req = ''POST'') (drop (length (sent w)) (sent w2))"
proof -
  from up obtain f where s1: "sent w1 = sent w @
      [\<lparr>http_method = ''POST'', http_url = api_url self @ ''/api/v1/tma/upload'',
        http_payload = Multipart (basename file_path) f ''application/pdf''
                         [(''student_id'', student), (''rubric'', rubric)]\<rparr>]"
    using upload_tma_sent by blast
  note s2 = submit_for_marking_sent [OF sub]
  have "mark_tma env self file_path student rubric False w =
           Some (Inr \<lparr>tma_id = tma, student_id = PStr student, score = PFloat ''0.0'',
                      grade = PStr [],
                      feedback = \<lparr>summary = PStr [], strengths = PList [],
                                   areas_for_improvement = PList [],
                                   detailed_comments = PList []\<rparr>,
                      marked_at = PStr []\<rparr>, w2)"
    using up sub by (simp add: mark_tma_def)
  moreover have "length (sent w2) = length (sent w) + 2"
    using s1 s2 by simp
  moreover have "list_all (\<lambda>req. http_method req = ''POST'') (drop (length (sent w)) (sent w2))"
    using s1 s2 by simp
  ultimately show ?thesis
    by blast
qed

theorem mark_tma_without_wait_witness:
  "outcome (mark_tma env_accepting client0 ''essay.pdf'' ''student001'' ''default'' False world0) =
     Some (Inr \<lparr>tma_id = PStr ''tma_123456'', student_id = PStr ''student001'',
                score = PFloat ''0.0'', grade = PStr [],
                feedback = \<lparr>summary = PStr [], strengths = PList [],
                             areas_for_improvement = PList [], detailed_comments = PList []\<rparr>,
                marked_at = PStr []\<rparr>)
   \<and> map_option length
       (requests_sent (mark_tma env_accepting client0 ''essay.pdf'' ''student001'' ''default'' False world0)) =
     Some 2"
proof -
  let ?up = "upload_tma env_accepting client0 ''essay.pdf'' ''student001'' ''default'' world0"
  let ?sub = "submit_for_marking env_accepting client0 (PStr ''tma_123456'') ''default'' True (snd ?up)"
  have up: "?up = (Inr (PStr ''tma_123456''), snd ?up)"
    by (simp add: prod_eq_iff upload_tma_def env_accepting_def essay_fs_def world0_def client0_def
          request_def Let_def ok_response_def raise_for_status_def response_json_def)
  have n1: "length (sent (snd ?up)) = 1"
    by (simp add: upload_tma_def env_accepting_def essay_fs_def world0_def client0_def
          request_def Let_def ok_response_def raise_for_status_def response_json_def)
  have sub: "?sub = (Inr (PStr ''job_1''), snd ?sub)"
    using n1
    by (simp add: prod_eq_iff submit_for_marking_def env_accepting_def client0_def
          request_def Let_def ok_response_def raise_for_status_def response_json_def)
  from mark_tma_without_wait [OF up sub] show ?thesis
    by (simp add: outcome_def requests_sent_def world0_def)
qed

subsection \<open>Reading the results\<close>

text \<open>
  Claim C10. \<^verbatim>\<open>MarkingResult.from_dict\<close> treats missing fields in two ways. Let the
  response be a JSON object whose \<^verbatim>\<open>feedback\<close> entry is absent or an object \<open>fb\<close>.
  If the five top-level fields are there, the result is built, and each of \<^verbatim>\<open>summary\<close>,
  \<^verbatim>\<open>strengths\<close>, \<^verbatim>\<open>areas_for_improvement\<close> and \<^verbatim>\<open>detailed_comments\<close> that \<open>fb\<close> lacks
  is the empty string or the empty list. If a top-level field is absent, \<^verbatim>\<open>from_dict\<close>
  raises \<^verbatim>\<open>KeyError\<close> for an absent field. \<^verbatim>\<open>get_results\<close> returns what \<^verbatim>\<open>from_dict\<close>
  makes of the body of the response, so it behaves the same.
\<close>

theorem from_dict_asymmetric:
  assumes fb: "case map_of d ''feedback'' of None \<Rightarrow> fb = [] | Some v \<Rightarrow> v = PDict fb"
  shows "(map_of d ''tma_id'' = Some a \<and> map_of d ''student_id'' = Some b \<and>
          map_of d ''score'' = Some c \<and> map_of d ''grade'' = Some g \<and>
          map_of d ''marked_at'' = Some m \<longrightarrow>
          from_dict (PDict d) =
            Inr \<lparr>tma_id = a, student_id = b, score = c, grade = g,
                 feedback =
                   \<lparr>summary = (case map_of fb ''summary'' of None \<Rightarrow> PStr [] | Some v \<Rightarrow> v),
                    strengths = (case map_of fb ''strengths'' of None \<Rightarrow> PList [] | Some v \<Rightarrow> v),
                    areas_for_improvement =
                      (case map_of fb ''areas_for_improvement'' of None \<Rightarrow> PList [] | Some v \<Rightarrow> v),
                    detailed_comments =
                      (case map_of fb ''detailed_comments'' of None \<Rightarrow> PList [] | Some v \<Rightarrow> v)\<rparr>,
                 marked_at = m\<rparr>)
       \<and> ((\<exists>k \<in> set top_level_fields. map_of d k = None) \<longrightarrow>
          (\<exists>k \<in> set top_level_fields. map_of d k = None \<and> from_dict (PDict d) = Inl (KeyError k)))
       \<and> (reply env (length (sent w))
            \<lparr>http_method = ''GET'', http_url = api_url self @ ''/api/v1/tma/'' @ py_str tma @ ''/results'',
             http_payload = NoBody\<rparr> = Responded r \<and>
          raise_for_status r = None \<and> json_body r = Some (PDict d) \<longrightarrow>
          fst (get_results env self tma w) = from_dict (PDict d))"
proof -
  have get_fb: "py_get (PDict d) ''feedback'' (PDict []) = Inr (PDict fb)"
    using fb by (simp split: option.splits)
  have built: "map_of d ''tma_id'' = Some a \<and> map_of d ''student_id'' = Some b \<and>
          map_of d ''score'' = Some c \<and> map_of d ''grade'' = Some g \<and>
          map_of d ''marked_at'' = Some m \<longrightarrow>
          from_dict (PDict d) =
            Inr \<lparr>tma_id = a, student_id = b, score = c, grade = g,
                 feedback =
                   \<lparr>summary = (case map_of fb ''summary'' of None \<Rightarrow> PStr [] | Some v \<Rightarrow> v),
                    strengths = (case map_of fb ''strengths'' of None \<Rightarrow> PList [] | Some v \<Rightarrow> v),
                    areas_for_improvement =
                      (case map_of fb ''areas_for_improvement'' of None \<Rightarrow> PList [] | Some v \<Rightarrow> v),
                    detailed_comments =
                      (case map_of fb ''detailed_comments'' of None \<Rightarrow> PList [] | Some v \<Rightarrow> v)\<rparr>,
                 marked_at = m\<rparr>"
    unfolding from_dict_def get_fb by simp
  have raised: "(\<exists>k \<in> set top_level_fields. map_of d k = None) \<longrightarrow>
          (\<exists>k \<in> set top_level_fields. map_of d k = None \<and> from_dict (PDict d) = Inl (KeyError k))"
    unfolding from_dict_def get_fb
    by (auto simp: top_level_fields_def split: option.splits)
  have fetched: "reply env (length (sent w))
            \<lparr>http_method = ''GET'', http_url = api_url self @ ''/api/v1/tma/'' @ py_str tma @ ''/results'',
             http_payload = NoBody\<rparr> = Responded r \<and>
          raise_for_status r = None \<and> json_body r = Some (PDict d) \<longrightarrow>
          fst (get_results env self tma w) = from_dict (PDict d)"
    by (auto simp: get_results_def request_ok response_json_def)
  from built raised fetched show ?thesis
    by blast
qed

theorem from_dict_asymmetric_witness:
  "from_dict (PDict bare_results) =
     Inr \<lparr>tma_id = PStr ''tma_123456'', student_id = PStr ''student001'', score = PInt 85,
          grade = PStr ''B+'',
          feedback = \<lparr>summary = PStr [], strengths = PList [], areas_for_improvement = PList [],
                       detailed_comments = PList []\<rparr>,
          marked_at = PStr ''2024-01-01T00:00:00''\<rparr>
   \<and> from_dict (PDict ungraded_results) = Inl (KeyError ''grade'')
   \<and> fst (get_results env_results client0 (PStr ''tma_123456'') world0) = from_dict sample_results"
proof -
  have first: "from_dict (PDict bare_results) =
     Inr \<lparr>tma_id = PStr ''tma_123456'', student_id = PStr ''student001'', score = PInt 85,
          grade = PStr ''B+'',
          feedback = \<lparr>summary = PStr [], strengths = PList [], areas_for_improvement = PList [],
                       detailed_comments = PList []\<rparr>,
          marked_at = PStr ''2024-01-01T00:00:00''\<rparr>"
    using from_dict_asymmetric
      [where d = bare_results and fb = "[]" and a = "PStr ''tma_123456''"
         and b = "PStr ''student001''" and c = "PInt 85" and g = "PStr ''B+''"
         and m = "PStr ''2024-01-01T00:00:00''"]
    by (simp add: bare_results_def)
  have second: "from_dict (PDict ungraded_results) = Inl (KeyError ''grade'')"
    using from_dict_asymmetric [where d = ungraded_results and fb = "[]"]
    by (auto simp: ungraded_results_def top_level_fields_def)
  have third: "fst (get_results env_results client0 (PStr ''tma_123456'') world0) =
      from_dict sample_results"
    using from_dict_asymmetric
      [where d = "[(''tma_id'', PStr ''tma_123456''),
            (''student_id'', PStr ''student001''),
            (''score'', PInt 85),
            (''grade'', PStr ''B+''),
            (''marked_at'', PStr ''2024-01-01T00:00:00''),
            (''feedback'', PDict
               [(''summary'', PStr ''Good work overall with clear arguments and strong evidence.''),
                (''strengths'', PList [PStr ''Clear thesis statement'', PStr ''Logical structure'']),
                (''areas_for_improvement'', PList [PStr ''Consider counterarguments''])])]"
         and fb = "[(''summary'', PStr ''Good work overall with clear arguments and strong evidence.''),
                (''strengths'', PList [PStr ''Clear thesis statement'', PStr ''Logical structure'']),
                (''areas_for_improvement'', PList [PStr ''Consider counterarguments''])]"
         and env = env_results and w = world0 and self = client0 and tma = "PStr ''tma_123456''"
         and r = "ok_response sample_results"]
    by (simp add: env_results_def world0_def sample_results_def ok_response_def raise_for_status_def)
  from first second third show ?thesis
    by blast
qed

section \<open>Properties of the formatter plugin\<close>

subsection \<open>Auxiliary facts\<close>

lemma bind_err_Inr_iff: "bind_err m f = Inr y \<longleftrightarrow> (\<exists>x. m = Inr x \<and> f x = Inr y)"
  by (cases m) simp_all

lemma bind_err_Inl_iff: "bind_err m f = Inl e \<longleftrightarrow> m = Inl e \<or> (\<exists>x. m = Inr x \<and> f x = Inl e)"
  by (cases m) simp_all

lemma py_item_Inr_iff: "py_item v k = Inr x \<longleftrightarrow> (\<exists>kvs. v = PDict kvs \<and> map_of kvs k = Some x)"
  by (cases v) (auto split: option.splits)

lemma py_item2_Inr_iff:
  "py_item2 v a b = Inr x \<longleftrightarrow>
     (\<exists>kvs fb. v = PDict kvs \<and> map_of kvs a = Some (PDict fb) \<and> map_of fb b = Some x)"
  by (auto simp: py_item2_def bind_err_Inr_iff py_item_Inr_iff)

lemma py_iter_Inl: "py_iter v = Inl e \<Longrightarrow> e = TypeError"
  by (cases v) auto

lemma py_concat_Inl: "py_concat s v = Inl e \<Longrightarrow> e = TypeError"
  by (cases v) auto

text \<open>What a failing lookup in a record raises.\<close>

lemma py_item_field_error:
  assumes "py_item (PDict d) k = Inl e" and "k \<in> set record_fields"
  shows "field_error d e"
  using assms by (auto simp: field_error_def split: option.splits)

lemma py_item2_field_error:
  assumes "py_item2 (PDict d) ''feedback'' k = Inl e" and "k \<in> set feedback_fields"
  shows "field_error d e"
proof (cases "map_of d ''feedback''")
  case None
  with assms(1) show ?thesis
    by (simp add: py_item2_def field_error_def record_fields_def)
next
  case (Some v)
  with assms show ?thesis
    by (cases v) (auto simp: py_item2_def field_error_def split: option.splits)
qed

lemma py_iter_field_error: "py_iter v = Inl e \<Longrightarrow> field_error d e"
  by (auto simp: field_error_def dest: py_iter_Inl)

lemma py_concat_field_error: "py_concat s v = Inl e \<Longrightarrow> field_error d e"
  by (auto simp: field_error_def dest: py_concat_Inl)

lemma fields_simps [simp]:
  "''student_id'' \<in> set record_fields"
  "''marked_at'' \<in> set record_fields"
  "''score'' \<in> set record_fields"
  "''grade'' \<in> set record_fields"
  "''feedback'' \<in> set record_fields"
  "''summary'' \<in> set feedback_fields"
  "''strengths'' \<in> set feedback_fields"
  "''areas_for_improvement'' \<in> set feedback_fields"
  by (simp_all add: record_fields_def feedback_fields_def)

text \<open>A record that lacks no field, spelled out.\<close>

lemma not_lacks_fieldI:
  assumes "map_of d ''student_id'' = Some a" "map_of d ''marked_at'' = Some b"
    "map_of d ''score'' = Some c" "map_of d ''grade'' = Some g"
    "map_of d ''feedback'' = Some (PDict fb)"
    "map_of fb ''summary'' = Some x" "map_of fb ''strengths'' = Some y"
    "map_of fb ''areas_for_improvement'' = Some z"
  shows "\<not> lacks_field d"
  using assms by (simp add: lacks_field_def record_fields_def feedback_fields_def)

lemma format_markdown_Inr: "format_markdown (PDict d) = Inr out \<Longrightarrow> \<not> lacks_field d"
  unfolding format_markdown_def Let_def bind_err_Inr_iff py_item_Inr_iff py_item2_Inr_iff
  by (elim exE conjE) (simp, erule (7) not_lacks_fieldI)

lemma format_markdown_Inl: "format_markdown (PDict d) = Inl e \<Longrightarrow> field_error d e"
  unfolding format_markdown_def Let_def bind_err_Inl_iff
  by (elim disjE exE conjE)
    (auto simp del: py_item.simps
       intro: py_item_field_error py_item2_field_error py_iter_field_error py_concat_field_error)

lemma format_html_Inr: "format_html (PDict d) = Inr out \<Longrightarrow> \<not> lacks_field d"
  unfolding format_html_def Let_def bind_err_Inr_iff py_item_Inr_iff py_item2_Inr_iff
  by (elim exE conjE) (simp, erule (7) not_lacks_fieldI)

lemma format_html_Inl: "format_html (PDict d) = Inl e \<Longrightarrow> field_error d e"
  unfolding format_html_def Let_def bind_err_Inl_iff
  by (elim disjE exE conjE)
    (auto simp del: py_item.simps
       intro: py_item_field_error py_item2_field_error py_iter_field_error py_concat_field_error)

lemma format_latex_Inr: "format_latex (PDict d) = Inr out \<Longrightarrow> \<not> lacks_field d"
  unfolding format_latex_def Let_def bind_err_Inr_iff py_item_Inr_iff py_item2_Inr_iff
  by (elim exE conjE) (simp, erule (7) not_lacks_fieldI)

lemma format_latex_Inl: "format_latex (PDict d) = Inl e \<Longrightarrow> field_error d e"
  unfolding format_latex_def Let_def bind_err_Inl_iff
  by (elim disjE exE conjE)
    (auto simp del: py_item.simps
       intro: py_item_field_error py_item2_field_error py_iter_field_error py_concat_field_error)

lemma format_plain_Inr: "format_plain (PDict d) = Inr out \<Longrightarrow> \<not> lacks_field d"
  unfolding format_plain_def Let_def bind_err_Inr_iff py_item_Inr_iff py_item2_Inr_iff
  by (elim exE conjE) (simp, erule (7) not_lacks_fieldI)

lemma format_plain_Inl: "format_plain (PDict d) = Inl e \<Longrightarrow> field_error d e"
  unfolding format_plain_def Let_def bind_err_Inl_iff
  by (elim disjE exE conjE)
    (auto simp del: py_item.simps
       intro: py_item_field_error py_item2_field_error py_iter_field_error py_concat_field_error)

text \<open>The dispatch of \<^verbatim>\<open>format_feedback\<close> on a style string.\<close>

lemma format_feedback_styles:
  assumes "format_type self = PStr s"
  shows "format_feedback self results =
           (if s = ''html'' then format_html results
            else if s = ''latex'' then format_latex results
            else if s = ''plain'' then format_plain results
            else if s = ''json'' then format_json results
            else format_markdown results)"
  using assms by (simp add: format_feedback_def formatters_def)

subsection \<open>The styles\<close>

text \<open>
  Claim C8. For every style string outside \<^verbatim>\<open>markdown\<close>, \<^verbatim>\<open>html\<close>, \<^verbatim>\<open>latex\<close>,
  \<^verbatim>\<open>plain\<close> and \<^verbatim>\<open>json\<close>, \<^verbatim>\<open>format_feedback\<close> gives on every input what it gives for
  the markdown style: the same text, or the same error.
\<close>

theorem unknown_style_is_markdown:
  assumes "format_type self = PStr s"
    and "s \<notin> {''markdown'', ''html'', ''latex'', ''plain'', ''json''}"
    and "format_type md = PStr ''markdown''"
  shows "format_feedback self results = format_feedback md results"
  using assms by (simp add: format_feedback_styles)

theorem unknown_style_is_markdown_witness:
  "format_feedback (plugin_for ''xml'') sample_results = format_feedback (init None) sample_results"
  using unknown_style_is_markdown
    [where self = "plugin_for ''xml''" and s = "''xml''" and md = "init None"]
  by (simp add: plugin_for_def init_def)

subsection \<open>Missing fields\<close>

text \<open>
  Claim C3, as the code has it. The text formatters read the fields with \<^verbatim>\<open>results[...]\<close>,
  so a missing field is an error, not an empty string. For a record that lacks a field
  the formatters read, \<^verbatim>\<open>format_feedback\<close> in every style but \<^verbatim>\<open>json\<close> (the four text
  styles, and by the fallback any unknown style) returns no text: it raises
  \<^verbatim>\<open>KeyError\<close> for a field that the record lacks, or \<^verbatim>\<open>TypeError\<close> where a field read
  before the first missing one has the wrong type. In the \<^verbatim>\<open>json\<close> style it does not raise, and the text
  is the JSON encoding of the record as it is: nothing is put in for a missing field.
\<close>

theorem missing_field_raises:
  assumes "format_type self = PStr s"
  shows "(s \<noteq> ''json'' \<and> lacks_field d \<longrightarrow>
            (\<exists>e. format_feedback self (PDict d) = Inl e \<and> field_error d e))
       \<and> (s = ''json'' \<longrightarrow> format_feedback self (PDict d) = Inr (json_dumps 2 (PDict d)))"
proof -
  have text_style: "\<exists>e. fmt (PDict d) = Inl e \<and> field_error d e"
    if "lacks_field d"
      and "\<And>out. fmt (PDict d) = Inr out \<Longrightarrow> \<not> lacks_field d"
      and "\<And>e. fmt (PDict d) = Inl e \<Longrightarrow> field_error d e"
    for fmt :: "pyval \<Rightarrow> error + string"
    using that by (cases "fmt (PDict d)") auto
  have "\<exists>e. format_feedback self (PDict d) = Inl e \<and> field_error d e"
    if "s \<noteq> ''json''" and "lacks_field d"
    using that assms
      text_style [of format_markdown, OF _ format_markdown_Inr format_markdown_Inl]
      text_style [of format_html, OF _ format_html_Inr format_html_Inl]
      text_style [of format_latex, OF _ format_latex_Inr format_latex_Inl]
      text_style [of format_plain, OF _ format_plain_Inr format_plain_Inl]
    by (simp add: format_feedback_styles)
  moreover have "format_feedback self (PDict d) = Inr (json_dumps 2 (PDict d))" if "s = ''json''"
    using that assms by (simp add: format_feedback_styles format_json_def)
  ultimately show ?thesis
    by blast
qed

theorem missing_field_raises_witness:
  "lacks_field ungraded_results
   \<and> (\<exists>e. format_feedback (plugin_for ''html'') (PDict ungraded_results) = Inl e \<and> field_error ungraded_results e)
   \<and> format_feedback (plugin_for ''json'') (PDict ungraded_results) =
       Inr (json_dumps 2 (PDict ungraded_results))"
proof -
  have lacks: "lacks_field ungraded_results"
    by (simp add: lacks_field_def ungraded_results_def record_fields_def)
  from lacks
    missing_field_raises [where self = "plugin_for ''html''" and s = "''html''" and d = ungraded_results]
    missing_field_raises [where self = "plugin_for ''json''" and s = "''json''" and d = ungraded_results]
  show ?thesis
    by (simp add: plugin_for_def init_def)
qed

text \<open>
  Claim C3 as stated fails: on a record without \<^verbatim>\<open>grade\<close> (and without \<^verbatim>\<open>feedback\<close>)
  each of the four text styles raises \<^verbatim>\<open>KeyError\<close> for \<^verbatim>\<open>grade\<close>; none returns a text
  with an empty string in its place.
\<close>

theorem missing_field_substitution_counterexample:
  "format_feedback (plugin_for ''markdown'') (PDict ungraded_results) = Inl (KeyError ''grade'')
   \<and> format_feedback (plugin_for ''html'') (PDict ungraded_results) = Inl (KeyError ''grade'')
   \<and> format_feedback (plugin_for ''latex'') (PDict ungraded_results) = Inl (KeyError ''grade'')
   \<and> format_feedback (plugin_for ''plain'') (PDict ungraded_results) = Inl (KeyError ''grade'')"
proof -
  have "format_markdown (PDict ungraded_results) = Inl (KeyError ''grade'')"
    by (simp add: format_markdown_def ungraded_results_def)
  moreover have "format_html (PDict ungraded_results) = Inl (KeyError ''grade'')"
    by (simp add: format_html_def ungraded_results_def)
  moreover have "format_latex (PDict ungraded_results) = Inl (KeyError ''grade'')"
    by (simp add: format_latex_def ungraded_results_def)
  moreover have "format_plain (PDict ungraded_results) = Inl (KeyError ''grade'')"
    by (simp add: format_plain_def ungraded_results_def)
  ultimately show ?thesis
    by (simp add: format_feedback_styles plugin_for_def init_def)
qed

section \<open>The JSON round trip\<close>

subsection \<open>Digits and numerals\<close>

lemma digit_char_props:
  assumes "d < 10"
  shows "is_digit (digit_char d)" and "digit_val (digit_char d) = d"
    and "of_char (digit_char d) = 48 + d"
  using assms by (simp_all add: digit_char_def is_digit_def digit_val_def)

lemma dec_nat_digits: "list_all is_digit (dec_nat n)"
proof (induction n rule: dec_nat.induct)
  case (1 n)
  show ?case
  proof (cases "n < 10")
    case True
    then show ?thesis
      by (subst dec_nat.simps) (simp add: digit_char_props)
  next
    case False
    with 1 show ?thesis
      by (subst dec_nat.simps) (simp add: digit_char_props)
  qed
qed

lemma dec_nat_not_Nil: "dec_nat n \<noteq> []"
  by (subst dec_nat.simps) simp

lemma nat_of_dec_snoc: "nat_of_dec (ds @ [c]) = 10 * nat_of_dec ds + digit_val c"
  by (simp add: nat_of_dec_def)

lemma nat_of_dec_dec_nat: "nat_of_dec (dec_nat n) = n"
proof (induction n rule: dec_nat.induct)
  case (1 n)
  show ?case
  proof (cases "n < 10")
    case True
    then show ?thesis
      by (subst dec_nat.simps) (simp add: nat_of_dec_def digit_char_props)
  next
    case False
    with 1 show ?thesis
      by (subst dec_nat.simps) (simp add: nat_of_dec_snoc digit_char_props)
  qed
qed

text \<open>A numeral of more than one digit does not start with a zero.\<close>

lemma dec_nat_hd:
  "\<exists>c cs. dec_nat n = c # cs \<and> is_digit c \<and> list_all is_digit cs \<and> (c = CHR ''0'' \<longrightarrow> cs = [])"
proof (induction n rule: dec_nat.induct)
  case (1 n)
  show ?case
  proof (cases "n < 10")
    case True
    then show ?thesis
      by (subst dec_nat.simps) (simp add: digit_char_props)
  next
    case False
    then have "n div 10 \<noteq> 0"
      by simp
    from False 1 obtain c cs where hd: "dec_nat (n div 10) = c # cs" "is_digit c"
      "list_all is_digit cs" "c = CHR ''0'' \<longrightarrow> cs = []"
      by blast
    have "c \<noteq> CHR ''0''"
    proof
      assume "c = CHR ''0''"
      with hd have "dec_nat (n div 10) = ''0''"
        by simp
      then have "nat_of_dec (dec_nat (n div 10)) = 0"
        by (simp add: nat_of_dec_def digit_val_def)
      with \<open>n div 10 \<noteq> 0\<close> show False
        by (simp add: nat_of_dec_dec_nat)
    qed
    with False hd show ?thesis
      by (subst dec_nat.simps) (simp add: digit_char_props)
  qed
qed

lemma int_of_dec_dec_int: "int_of_dec (dec_int i) = i"
proof (cases "i < 0")
  case True
  then show ?thesis
    by (simp add: int_of_dec_def dec_int_def nat_of_dec_dec_nat)
next
  case False
  obtain c cs where "dec_nat (nat i) = c # cs" "is_digit c"
    using dec_nat_hd by blast
  then have "hd (dec_nat (nat i)) \<noteq> CHR ''-''"
    by (auto simp: is_digit_def)
  with False show ?thesis
    by (simp add: int_of_dec_def dec_int_def nat_of_dec_dec_nat dec_nat_not_Nil)
qed

subsection \<open>Numbers in front of more text\<close>

lemma ends_value_not_digit: "ends_value rest \<Longrightarrow> rest = [] \<or> \<not> is_digit (hd rest)"
  by (auto simp: ends_value_def is_digit_def)

lemma takeWhile_digits_append:
  assumes "ends_value rest"
  shows "takeWhile is_digit (xs @ rest) = takeWhile is_digit xs"
    and "dropWhile is_digit (xs @ rest) = dropWhile is_digit xs @ rest"
proof -
  from assms have rest: "takeWhile is_digit rest = []" "dropWhile is_digit rest = rest"
    using ends_value_not_digit [of rest] by (cases rest; simp)+
  show "takeWhile is_digit (xs @ rest) = takeWhile is_digit xs"
    by (induction xs) (simp_all add: rest)
  show "dropWhile is_digit (xs @ rest) = dropWhile is_digit xs @ rest"
    by (induction xs) (simp_all add: rest)
qed

lemma match_integer_end: "ends_value rest \<Longrightarrow> match_integer rest = None"
  by (cases rest) (auto simp: match_integer_def Let_def ends_value_def is_digit_def)

lemma match_integer_append:
  assumes "ends_value rest"
  shows "match_integer (s @ rest) = map_option (apsnd (\<lambda>t. t @ rest)) (match_integer s)"
proof (cases s)
  case Nil
  with assms show ?thesis
    by (simp add: match_integer_end) (simp add: match_integer_def Let_def)
next
  case (Cons c cs)
  show ?thesis
  proof (cases "c = CHR ''-''")
    case False
    with Cons assms show ?thesis
      by (simp add: match_integer_def Let_def takeWhile_digits_append)
  next
    case True
    show ?thesis
    proof (cases cs)
      case Nil
      with True Cons assms show ?thesis
        by (cases rest) (auto simp: match_integer_def Let_def ends_value_def is_digit_def)
    next
      case (Cons c' cs')
      with True \<open>s = c # cs\<close> assms show ?thesis
        by (simp add: match_integer_def Let_def takeWhile_digits_append)
    qed
  qed
qed

lemma match_frac_append:
  assumes "ends_value rest"
  shows "match_frac (s @ rest) = apsnd (\<lambda>t. t @ rest) (match_frac s)"
proof (cases s)
  case Nil
  with assms show ?thesis
    by (cases rest) (auto simp: match_frac_def ends_value_def)
next
  case (Cons c cs)
  with assms show ?thesis
    by (simp add: match_frac_def takeWhile_digits_append)
qed

lemma match_exp_append:
  assumes "ends_value rest"
  shows "match_exp (s @ rest) = apsnd (\<lambda>t. t @ rest) (match_exp s)"
proof (cases s)
  case Nil
  with assms show ?thesis
    by (cases rest) (auto simp: match_exp_def ends_value_def Let_def)
next
  case (Cons c cs)
  show ?thesis
  proof (cases cs)
    case Nil
    with Cons assms show ?thesis
      by (cases rest) (auto simp: match_exp_def ends_value_def Let_def is_digit_def)
  next
    case (Cons c' cs')
    with \<open>s = c # cs\<close> assms show ?thesis
      by (simp add: match_exp_def Let_def takeWhile_digits_append)
  qed
qed

lemma match_number_append:
  assumes "ends_value rest"
  shows "match_number (s @ rest) = map_option (apsnd (\<lambda>t. t @ rest)) (match_number s)"
proof (cases "match_integer s")
  case None
  with assms show ?thesis
    by (simp add: match_number_def match_integer_append)
next
  case (Some a)
  obtain integer s1 where a: "a = (integer, s1)"
    by (cases a)
  obtain frac s2 where frac: "match_frac s1 = (frac, s2)"
    by (cases "match_frac s1")
  obtain exp s3 where exp: "match_exp s2 = (exp, s3)"
    by (cases "match_exp s2")
  from assms Some a frac exp show ?thesis
    by (simp add: match_number_def match_integer_append match_frac_append match_exp_append)
qed

text \<open>What the number pattern accepts starts with a minus or a digit.\<close>

lemma match_number_start:
  assumes "match_number s = Some r"
  shows "\<exists>c cs. s = c # cs \<and> (c = CHR ''-'' \<or> is_digit c)"
proof -
  from assms obtain a where "match_integer s = Some a"
    by (auto simp: match_number_def split: option.splits)
  then show ?thesis
    by (cases s) (auto simp: match_integer_def Let_def is_digit_def split: list.splits if_splits)
qed

lemma scan_once_number:
  assumes "match_number s = Some r"
  shows "scan_once (Suc fuel) s = Some r"
proof -
  from match_number_start [OF assms] obtain c cs
    where s: "s = c # cs" and c: "c = CHR ''-'' \<or> is_digit c"
    by blast
  from c have "c \<noteq> CHR 0x22" "c \<noteq> CHR ''{''" "c \<noteq> CHR ''[''" "c \<noteq> CHR ''n''"
    "c \<noteq> CHR ''t''" "c \<noteq> CHR ''f''"
    by (auto simp: is_digit_def)
  with assms s show ?thesis
    by simp
qed

lemma match_number_dec_int: "match_number (dec_int i) = Some (PInt i, [])"
proof -
  obtain c cs where n: "dec_nat (nat \<bar>i\<bar>) = c # cs" "is_digit c" "list_all is_digit cs"
    "c = CHR ''0'' \<longrightarrow> cs = []"
    using dec_nat_hd by blast
  have digits: "takeWhile is_digit cs = cs" "dropWhile is_digit cs = []"
    using n(3) by (simp_all add: list_all_iff)
  have c: "c \<noteq> CHR ''-''"
    using n(2) by (auto simp: is_digit_def)
  have int_part: "match_integer (dec_int i) = Some (dec_int i, [])"
  proof (cases "i < 0")
    case True
    then have "dec_int i = CHR ''-'' # c # cs"
      using n(1) by (simp add: dec_int_def abs_if)
    with n(4) digits show ?thesis
      by (auto simp: match_integer_def Let_def n(2))
  next
    case False
    then have "dec_int i = c # cs"
      using n(1) by (simp add: dec_int_def abs_if)
    with n(4) digits c show ?thesis
      by (auto simp: match_integer_def Let_def n(2))
  qed
  then show ?thesis
    by (simp add: match_number_def match_frac_def match_exp_def int_of_dec_dec_int)
qed

lemma scan_once_int:
  assumes "ends_value rest"
  shows "scan_once (Suc fuel) (dec_int i @ rest) = Some (PInt i, rest)"
  by (rule scan_once_number) (simp add: match_number_append [OF assms] match_number_dec_int)

lemma scan_once_float:
  assumes "is_float_repr r" and "ends_value rest"
  shows "scan_once (Suc fuel) (floatstr r @ rest) = Some (PFloat r, rest)"
proof -
  consider "r = ''nan''" | "r = ''inf''" | "r = ''-inf''"
    | "r \<noteq> ''nan''" "r \<noteq> ''inf''" "r \<noteq> ''-inf''" "match_number r = Some (PFloat r, [])"
    using assms(1) by (auto simp: is_float_repr_def)
  then show ?thesis
  proof cases
    case 1
    then show ?thesis
      by (simp add: floatstr_def strip_prefix_def match_number_def match_integer_def Let_def is_digit_def)
  next
    case 2
    then show ?thesis
      by (simp add: floatstr_def strip_prefix_def match_number_def match_integer_def Let_def is_digit_def)
  next
    case 3
    then show ?thesis
      by (simp add: floatstr_def strip_prefix_def match_number_def match_integer_def Let_def is_digit_def)
  next
    case 4
    then have "floatstr r = r"
      by (simp add: floatstr_def)
    with 4(4) show ?thesis
      by (intro scan_once_number) (simp add: match_number_append [OF assms(2)])
  qed
qed

subsection \<open>Strings\<close>

lemma hex_val_hex_char: "d < 16 \<Longrightarrow> hex_val (hex_char d) = Some d"
  by (auto simp: hex_val_def hex_char_def digit_char_def Let_def)

lemma decode_hex4: "decode_uXXXX (CHR ''0'') (CHR ''0'') (hex_char (of_char c div 16)) (hex_char (of_char c mod 16)) = Some c"
proof -
  have "(of_char c :: nat) mod 256 < 256"
    by (rule mod_less_divisor) simp
  then have "(of_char c :: nat) < 256"
    by simp
  then have "(of_char c :: nat) div 16 < 16"
    by arith
  moreover have zero: "hex_val (CHR ''0'') = Some 0"
    by (simp add: hex_val_def)
  ultimately show ?thesis
    by (simp add: decode_uXXXX_def hex_val_hex_char zero)
qed

text \<open>One character, escaped or not, is read back as itself.\<close>

lemma scanstring_escape_char:
  "scanstring (json_escape_char c @ t) = map_option (apfst ((#) c)) (scanstring t)"
proof -
  consider "c = CHR 0x5C" | "c = CHR 0x22" | "c = CHR 0x08" | "c = CHR 0x0C" | "c = CHR 0x0A"
    | "c = CHR 0x0D" | "c = CHR 0x09"
    | "c \<noteq> CHR 0x5C" "c \<noteq> CHR 0x22" "32 \<le> (of_char c :: nat)" "(of_char c :: nat) \<le> 126"
    | "c \<noteq> CHR 0x5C" "c \<noteq> CHR 0x22" "c \<noteq> CHR 0x08" "c \<noteq> CHR 0x0C" "c \<noteq> CHR 0x0A"
      "c \<noteq> CHR 0x0D" "c \<noteq> CHR 0x09" "\<not> (32 \<le> (of_char c :: nat) \<and> (of_char c :: nat) \<le> 126)"
    by blast
  then show ?thesis
  proof cases
    case 8
    then have "json_escape_char c = [c]"
      by (auto simp: json_escape_char_def)
    with 8 show ?thesis
      by simp
  next
    case 9
    then have "json_escape_char c =
        [CHR 0x5C, CHR ''u'', CHR ''0'', CHR ''0'', hex_char (of_char c div 16), hex_char (of_char c mod 16)]"
      by (simp add: json_escape_char_def bs_def hex4_def hex2_def)
    then show ?thesis
      by (simp add: decode_hex4)
  qed (simp_all add: json_escape_char_def bs_def backslash_def)
qed

lemma scanstring_escaped:
  "scanstring (concat (map json_escape_char s) @ CHR 0x22 # rest) = Some (s, rest)"
  by (induction s) (simp_all add: scanstring_escape_char)

lemma scan_once_string:
  "scan_once (Suc fuel) (encode_basestring_ascii s @ rest) = Some (PStr s, rest)"
  by (simp add: encode_basestring_ascii_def scanstring_escaped)

subsection \<open>White space and the start of a value\<close>

lemma starts_value_simps:
  assumes "starts_value c"
  shows "\<not> is_ws c" and "c \<noteq> CHR '']''" and "c \<noteq> CHR ''}''" and "c \<noteq> CHR '',''" and "c \<noteq> CHR '':''"
  using assms by (auto simp: starts_value_def is_ws_def is_digit_def)

lemma skip_ws_start: "starts_value c \<Longrightarrow> skip_ws (c # cs) = c # cs"
  by (simp add: skip_ws_def starts_value_simps)

lemma skip_ws_newline_indent: "skip_ws (newline_indent indent level @ t) = skip_ws t"
proof -
  have "dropWhile is_ws (replicate n (CHR '' '') @ t) = dropWhile is_ws t" for n
    by (induction n) (simp_all add: is_ws_def)
  then show ?thesis
    by (simp add: skip_ws_def newline_indent_def nl_def is_ws_def)
qed

lemma skip_ws_simps [simp]:
  "skip_ws (CHR '','' # t) = CHR '','' # t"
  "skip_ws (CHR '':'' # t) = CHR '':'' # t"
  "skip_ws (CHR '']'' # t) = CHR '']'' # t"
  "skip_ws (CHR ''}'' # t) = CHR ''}'' # t"
  "skip_ws (CHR 0x22 # t) = CHR 0x22 # t"
  "skip_ws (CHR '' '' # t) = skip_ws t"
  "skip_ws [] = []"
  by (simp_all add: skip_ws_def is_ws_def)

lemma ends_value_simps [simp]:
  "ends_value []"
  "ends_value (CHR '','' # t)"
  "ends_value (newline_indent indent level @ t)"
  by (simp_all add: ends_value_def newline_indent_def nl_def)

lemma length_newline_indent: "0 < length (newline_indent indent level)"
  by (simp add: newline_indent_def nl_def)

lemma is_float_repr_start:
  assumes "is_float_repr r"
  shows "\<exists>c cs. floatstr r = c # cs \<and> starts_value c"
proof -
  consider "r = ''nan''" | "r = ''inf''" | "r = ''-inf''"
    | "r \<noteq> ''nan''" "r \<noteq> ''inf''" "r \<noteq> ''-inf''" "match_number r = Some (PFloat r, [])"
    using assms by (auto simp: is_float_repr_def)
  then show ?thesis
  proof cases
    case 4
    from match_number_start [OF 4(4)] 4(1-3) show ?thesis
      by (auto simp: floatstr_def starts_value_def)
  qed (simp_all add: floatstr_def starts_value_def)
qed

lemma dec_int_start: "\<exists>c cs. dec_int i = c # cs \<and> starts_value c"
  using match_number_start [OF match_number_dec_int [of i]]
  by (auto simp: starts_value_def)

lemma iterencode_start:
  assumes "well_formed v"
  shows "\<exists>c cs. iterencode indent level v = c # cs \<and> starts_value c"
proof (cases v)
  case (PFloat r)
  with assms is_float_repr_start [of r] show ?thesis
    by simp
next
  case (PInt i)
  with dec_int_start [of i] show ?thesis
    by simp
qed (simp_all add: starts_value_def encode_basestring_ascii_def)

subsection \<open>Dicts without a repeated key\<close>

lemma dict_set_new: "k \<notin> fst ` set kvs \<Longrightarrow> dict_set kvs k v = kvs @ [(k, v)]"
  by (induction kvs) auto

lemma dict_of_pairs_distinct_aux:
  "distinct (map fst (acc @ kvs)) \<Longrightarrow>
   foldl (\<lambda>d kv. dict_set d (fst kv) (snd kv)) acc kvs = acc @ kvs"
proof (induction kvs arbitrary: acc)
  case Nil
  then show ?case by simp
next
  case (Cons kv kvs)
  from Cons.prems have new: "fst kv \<notin> fst ` set acc"
    by auto
  from Cons.prems have "distinct (map fst ((acc @ [kv]) @ kvs))"
    by simp
  from Cons.IH [OF this] new show ?case
    by (simp add: dict_set_new)
qed

lemma dict_of_pairs_distinct: "distinct (map fst kvs) \<Longrightarrow> dict_of_pairs kvs = kvs"
  using dict_of_pairs_distinct_aux [of "[]" kvs] by (simp add: dict_of_pairs_def)

subsection \<open>Items and members\<close>

lemma join_Cons: "xs \<noteq> [] \<Longrightarrow> join sep (x # xs) = x @ sep @ join sep xs"
  by (cases xs) simp_all

lemma join_start: "xs \<noteq> [] \<Longrightarrow> hd xs = c # cs \<Longrightarrow> \<exists>t. join sep xs = c # t"
proof (cases xs)
  case Nil
  then show "xs \<noteq> [] \<Longrightarrow> ?thesis"
    by simp
next
  case (Cons x ys)
  then show "hd xs = c # cs \<Longrightarrow> ?thesis"
    by (cases ys) simp_all
qed

text \<open>
  The loop of \<^verbatim>\<open>JSONArray\<close> reads back the items that the encoder wrote between the
  brackets, given that each item is read back by \<open>scan_once\<close>.
\<close>

lemma parse_items_join:
  assumes "xs \<noteq> []"
    and "\<And>x fuel rest. x \<in> set xs \<Longrightarrow> ends_value rest \<Longrightarrow> length (enc x) \<le> fuel \<Longrightarrow>
           scan_once fuel (enc x @ rest) = Some (x, rest)"
    and "\<And>x. x \<in> set xs \<Longrightarrow> \<exists>c cs. enc x = c # cs \<and> starts_value c"
    and "length (join (CHR '','' # newline_indent indent l1) (map enc xs)) < fuel"
  shows "parse_items fuel
           (join (CHR '','' # newline_indent indent l1) (map enc xs) @
            newline_indent indent l0 @ CHR '']'' # rest) = Some (xs, rest)"
  using assms
proof (induction xs arbitrary: fuel rule: list_nonempty_induct)
  case (single x)
  from single.prems(3) obtain f where fuel: "fuel = Suc f" and f: "length (enc x) \<le> f"
    by (cases fuel) auto
  have "scan_once f (enc x @ newline_indent indent l0 @ CHR '']'' # rest) =
          Some (x, newline_indent indent l0 @ CHR '']'' # rest)"
    using f by (intro single.prems(1)) simp_all
  then show ?case
    by (simp add: fuel skip_ws_newline_indent)
next
  case (cons x xs)
  let ?sep = "CHR '','' # newline_indent indent l1"
  let ?close = "newline_indent indent l0 @ CHR '']'' # rest"
  have join: "join ?sep (map enc (x # xs)) = enc x @ ?sep @ join ?sep (map enc xs)"
    using cons.hyps by (simp add: join_Cons)
  from cons.prems(3) obtain f where fuel: "fuel = Suc f"
    and f: "length (enc x) \<le> f" "length (join ?sep (map enc xs)) < f"
    unfolding join using length_newline_indent [of indent l1] by (cases fuel) auto
  have first: "scan_once f (enc x @ ?sep @ join ?sep (map enc xs) @ ?close) =
          Some (x, ?sep @ join ?sep (map enc xs) @ ?close)"
    using f by (intro cons.prems(1)) simp_all
  obtain c cs where "enc (hd xs) = c # cs" "starts_value c"
    using cons.prems(2) [of "hd xs"] cons.hyps by auto
  then obtain t where start: "join ?sep (map enc xs) = c # t"
    using join_start [of "map enc xs" c cs ?sep] cons.hyps by (auto simp: hd_map)
  have skip: "skip_ws (newline_indent indent l1 @ join ?sep (map enc xs) @ ?close) =
          join ?sep (map enc xs) @ ?close"
    using \<open>starts_value c\<close> by (simp add: skip_ws_newline_indent start skip_ws_start)
  have rest: "parse_items f (join ?sep (map enc xs) @ ?close) = Some (xs, rest)"
    using f(2) by (intro cons.IH cons.prems(1,2)) simp_all
  show ?case
    unfolding join fuel using first skip rest by simp
qed

text \<open>The same for the loop of \<^verbatim>\<open>JSONObject\<close> and the members of a dict.\<close>

lemma parse_members_join:
  assumes "kvs \<noteq> []"
    and "\<And>kv fuel rest. kv \<in> set kvs \<Longrightarrow> ends_value rest \<Longrightarrow> length (enc (snd kv)) \<le> fuel \<Longrightarrow>
           scan_once fuel (enc (snd kv) @ rest) = Some (snd kv, rest)"
    and "\<And>kv. kv \<in> set kvs \<Longrightarrow> \<exists>c cs. enc (snd kv) = c # cs \<and> starts_value c"
    and "length (join (CHR '','' # newline_indent indent l1)
           (map (\<lambda>kv. encode_basestring_ascii (fst kv) @ '': '' @ enc (snd kv)) kvs)) < fuel"
  shows "parse_members fuel
           (join (CHR '','' # newline_indent indent l1)
              (map (\<lambda>kv. encode_basestring_ascii (fst kv) @ '': '' @ enc (snd kv)) kvs) @
            newline_indent indent l0 @ CHR ''}'' # rest) = Some (kvs, rest)"
  using assms
proof (induction kvs arbitrary: fuel rule: list_nonempty_induct)
  case (single kv)
  let ?close = "newline_indent indent l0 @ CHR ''}'' # rest"
  from single.prems(3) obtain f where fuel: "fuel = Suc f" and f: "length (enc (snd kv)) \<le> f"
    by (cases fuel) auto
  obtain c cs where start: "enc (snd kv) = c # cs" "starts_value c"
    using single.prems(2) [of kv] by auto
  have "scan_once f (enc (snd kv) @ ?close) = Some (snd kv, ?close)"
    using f by (intro single.prems(1)) simp_all
  then have "scan_once f (c # cs @ ?close) = Some (snd kv, ?close)"
    by (simp add: start)
  then show ?case
    using start
    by (simp add: fuel encode_basestring_ascii_def scanstring_escaped skip_ws_start
          skip_ws_newline_indent)
next
  case (cons kv kvs)
  let ?member = "\<lambda>kv. encode_basestring_ascii (fst kv) @ '': '' @ enc (snd kv)"
  let ?sep = "CHR '','' # newline_indent indent l1"
  let ?close = "newline_indent indent l0 @ CHR ''}'' # rest"
  have join: "join ?sep (map ?member (kv # kvs)) = ?member kv @ ?sep @ join ?sep (map ?member kvs)"
    using cons.hyps by (simp add: join_Cons)
  from cons.prems(3) obtain f where fuel: "fuel = Suc f"
    and f: "length (enc (snd kv)) \<le> f" "length (join ?sep (map ?member kvs)) < f"
    unfolding join using length_newline_indent [of indent l1] by (cases fuel) auto
  obtain c cs where start: "enc (snd kv) = c # cs" "starts_value c"
    using cons.prems(2) [of kv] by auto
  have "scan_once f (enc (snd kv) @ ?sep @ join ?sep (map ?member kvs) @ ?close) =
          Some (snd kv, ?sep @ join ?sep (map ?member kvs) @ ?close)"
    using f by (intro cons.prems(1)) simp_all
  then have first: "scan_once f (c # cs @ ?sep @ join ?sep (map ?member kvs) @ ?close) =
          Some (snd kv, ?sep @ join ?sep (map ?member kvs) @ ?close)"
    by (simp add: start)
  obtain t where next_start: "join ?sep (map ?member kvs) = CHR 0x22 # t"
    using join_start [of "map ?member kvs" "CHR 0x22" _ ?sep] cons.hyps
    by (auto simp: hd_map encode_basestring_ascii_def)
  have skip: "skip_ws (newline_indent indent l1 @ join ?sep (map ?member kvs) @ ?close) =
          join ?sep (map ?member kvs) @ ?close"
    unfolding next_start by (simp add: skip_ws_newline_indent)
  have rest: "parse_members f (join ?sep (map ?member kvs) @ ?close) = Some (kvs, rest)"
    using f(2) by (intro cons.IH cons.prems(1,2)) simp_all
  show ?case
    unfolding join fuel using first skip rest start
    by (simp add: encode_basestring_ascii_def scanstring_escaped skip_ws_start)
qed

subsection \<open>Reading back what the encoder wrote\<close>

lemma scan_once_iterencode:
  assumes "well_formed v" and "ends_value rest" and "length (iterencode indent level v) \<le> fuel"
  shows "scan_once fuel (iterencode indent level v @ rest) = Some (v, rest)"
  using assms
proof (induction v arbitrary: fuel level rest)
  case PNone
  then obtain f where "fuel = Suc f"
    by (cases fuel) auto
  then show ?case
    by (simp add: strip_prefix_def)
next
  case (PBool b)
  then obtain f where "fuel = Suc f"
    by (cases fuel; cases b) auto
  then show ?case
    by (simp add: strip_prefix_def)
next
  case (PInt i)
  from PInt.prems(3) dec_int_start [of i] obtain f where "fuel = Suc f"
    by (cases fuel) auto
  with PInt.prems(2) show ?case
    by (simp add: scan_once_int)
next
  case (PFloat r)
  from PFloat.prems(1,3) is_float_repr_start [of r] obtain f where "fuel = Suc f"
    by (cases fuel) auto
  with PFloat.prems(1,2) show ?case
    by (simp add: scan_once_float)
next
  case (PStr s)
  then obtain f where "fuel = Suc f"
    by (cases fuel) (auto simp: encode_basestring_ascii_def)
  then show ?case
    by (simp add: scan_once_string)
next
  case (PList xs)
  show ?case
  proof (cases "xs = []")
    case True
    with PList.prems(3) obtain f where "fuel = Suc f"
      by (cases fuel) auto
    with True show ?thesis
      by simp
  next
    case False
    let ?enc = "iterencode indent (Suc level)"
    let ?sep = "CHR '','' # newline_indent indent (Suc level)"
    let ?items = "join ?sep (map ?enc xs)"
    let ?close = "newline_indent indent level @ CHR '']'' # rest"
    have encoded: "iterencode indent level (PList xs) @ rest =
                  CHR ''['' # newline_indent indent (Suc level) @ ?items @ ?close"
      using False by simp
    from PList.prems(3) False obtain f where fuel: "fuel = Suc f" and f: "length ?items < f"
      using length_newline_indent [of indent level] by (cases fuel) auto
    have wf: "well_formed x" if "x \<in> set xs" for x
      using that PList.prems(1) by (simp add: list_all_iff)
    have starts: "\<exists>c cs. ?enc x = c # cs \<and> starts_value c" if "x \<in> set xs" for x
      using that wf by (intro iterencode_start)
    have items: "parse_items f (?items @ ?close) = Some (xs, rest)"
      using False PList.IH wf starts f
      by (intro parse_items_join [where enc = ?enc]) auto
    obtain c cs where "?enc (hd xs) = c # cs" and c: "starts_value c"
      using starts [of "hd xs"] False by auto
    then obtain t where start: "?items = c # t"
      using join_start [of "map ?enc xs" c cs ?sep] False by (auto simp: hd_map)
    have "scan_once (Suc f) (CHR ''['' # newline_indent indent (Suc level) @ ?items @ ?close) =
            map_option (apfst PList) (parse_items f (?items @ ?close))"
      unfolding start using c
      by (simp add: skip_ws_newline_indent skip_ws_start starts_value_simps)
    with items show ?thesis
      unfolding encoded fuel by simp
  qed
next
  case (PDict kvs)
  show ?case
  proof (cases "kvs = []")
    case True
    with PDict.prems(3) obtain f where "fuel = Suc f"
      by (cases fuel) auto
    with True show ?thesis
      by simp
  next
    case False
    let ?enc = "iterencode indent (Suc level)"
    let ?member = "\<lambda>kv. encode_basestring_ascii (fst kv) @ '': '' @ ?enc (snd kv)"
    let ?sep = "CHR '','' # newline_indent indent (Suc level)"
    let ?members = "join ?sep (map ?member kvs)"
    let ?close = "newline_indent indent level @ CHR ''}'' # rest"
    have encoded: "iterencode indent level (PDict kvs) @ rest =
                  CHR ''{'' # newline_indent indent (Suc level) @ ?members @ ?close"
      using False by simp
    from PDict.prems(3) False obtain f where fuel: "fuel = Suc f" and f: "length ?members < f"
      using length_newline_indent [of indent level] by (cases fuel) auto
    have wf: "well_formed (snd kv)" if "kv \<in> set kvs" for kv
      using that PDict.prems(1) by (simp add: list_all_iff)
    have keys: "distinct (map fst kvs)"
      using PDict.prems(1) by simp
    have starts: "\<exists>c cs. ?enc (snd kv) = c # cs \<and> starts_value c" if "kv \<in> set kvs" for kv
      using that wf by (intro iterencode_start)
    have IH: "scan_once fuel (?enc (snd kv) @ rest) = Some (snd kv, rest)"
      if "kv \<in> set kvs" "ends_value rest" "length (?enc (snd kv)) \<le> fuel" for kv fuel rest
      using that wf [of kv] by (intro PDict.IH [of kv "snd kv"]) (cases kv; simp)+
    have members: "parse_members f (?members @ ?close) = Some (kvs, rest)"
      using False IH starts f
      by (intro parse_members_join [where enc = ?enc]) auto
    obtain t where start: "?members = CHR 0x22 # t"
      using join_start [of "map ?member kvs" "CHR 0x22" _ ?sep] False
      by (auto simp: hd_map encode_basestring_ascii_def)
    have "scan_once (Suc f) (CHR ''{'' # newline_indent indent (Suc level) @ ?members @ ?close) =
            map_option (apfst (\<lambda>pairs. PDict (dict_of_pairs pairs))) (parse_members f (?members @ ?close))"
      unfolding start by (simp add: skip_ws_newline_indent)
    with members keys show ?thesis
      unfolding encoded fuel by (simp add: dict_of_pairs_distinct)
  qed
qed

lemma json_loads_json_dumps:
  assumes "well_formed v"
  shows "json_loads (json_dumps indent v) = Inr v"
proof -
  obtain c cs where start: "iterencode indent 0 v = c # cs" "starts_value c"
    using iterencode_start [OF assms] by blast
  have "scan_once (Suc (length (iterencode indent 0 v))) (iterencode indent 0 v @ []) = Some (v, [])"
    using assms by (intro scan_once_iterencode) simp_all
  then have "scan_once (Suc (length (c # cs))) (c # cs) = Some (v, [])"
    by (simp add: start)
  with start show ?thesis
    by (simp add: json_loads_def json_dumps_def skip_ws_start del: scan_once.simps)
qed

subsection \<open>Equality of a value with itself\<close>

lemma py_eq_list_refl:
  assumes "\<And>x. x \<in> set xs \<Longrightarrow> py_eq x x = Some True"
  shows "py_eq_list xs xs = Some True"
  using assms by (induction xs) (simp_all add: both_def)

lemma py_eq_items_sub:
  assumes "distinct (map fst b)" and "set kvs \<subseteq> set b"
    and "\<And>kv. kv \<in> set kvs \<Longrightarrow> py_eq (snd kv) (snd kv) = Some True"
  shows "py_eq_items kvs b = Some True"
  using assms(2,3)
proof (induction kvs)
  case Nil
  then show ?case by simp
next
  case (Cons kv kvs)
  from Cons.prems(1) have "(fst kv, snd kv) \<in> set b"
    by simp
  with assms(1) have "map_of b (fst kv) = Some (snd kv)"
    by (rule map_of_is_SomeI)
  with Cons show ?case
    by (simp add: both_def)
qed

text \<open>Without \<^verbatim>\<open>nan\<close>, a value is equal to itself.\<close>

lemma py_eq_refl:
  assumes "well_formed v" and "nan_free v"
  shows "py_eq v v = Some True"
  using assms
proof (induction v)
  case (PList xs)
  have "py_eq x x = Some True" if "x \<in> set xs" for x
    using that PList.prems by (intro PList.IH) (simp_all add: list_all_iff)
  then have "py_eq_list xs xs = Some True"
    by (rule py_eq_list_refl)
  then show ?case
    by simp
next
  case (PDict kvs)
  have "py_eq (snd kv) (snd kv) = Some True" if "kv \<in> set kvs" for kv
  proof (rule PDict.IH [of kv "snd kv"])
    show "kv \<in> set kvs" by (rule that)
    show "snd kv \<in> Basic_BNFs.snds kv" by (cases kv) simp
    show "well_formed (snd kv)" using that PDict.prems(1) by (simp add: list_all_iff)
    show "nan_free (snd kv)" using that PDict.prems(2) by (simp add: list_all_iff)
  qed
  with PDict.prems(1) have "py_eq_items kvs kvs = Some True"
    by (intro py_eq_items_sub) simp_all
  then show ?case
    by simp
next
  case (PFloat r)
  then show ?case by (simp add: float_eq_def)
qed simp_all

subsection \<open>The claim\<close>

text \<open>
  Claim C7, as the code has it. \<^verbatim>\<open>_format_json\<close> is one call of \<^verbatim>\<open>json.dumps\<close>, so the claim
  is settled on the encoder and the decoder of the standard library as modelled above. For
  every result record \<open>r\<close> that holds no \<^verbatim>\<open>nan\<close> (and is a value that Python can hold: no
  dict with a key twice, every float spelled as \<^verbatim>\<open>repr\<close> spells one; dict keys are strings,
  and strings are of code points below 256), the text that the \<^verbatim>\<open>json\<close> style produces is
  read back by \<^verbatim>\<open>json.loads\<close> as \<open>r\<close> itself, and the value read back is equal to \<open>r\<close> by
  Python's \<^verbatim>\<open>==\<close>.
\<close>

theorem format_json_round_trip:
  assumes "well_formed r" and "nan_free r"
  shows "bind_err (format_feedback (plugin_for ''json'') r) json_loads = Inr r
       \<and> round_trip_eq r = Some True"
proof -
  have "bind_err (format_feedback (plugin_for ''json'') r) json_loads = Inr r"
    using json_loads_json_dumps [OF assms(1)]
    by (simp add: format_feedback_styles plugin_for_def init_def format_json_def)
  with py_eq_refl [OF assms] show ?thesis
    by (simp add: round_trip_eq_def)
qed

theorem format_json_round_trip_witness:
  "well_formed float_results \<and> nan_free float_results
   \<and> bind_err (format_feedback (plugin_for ''json'') float_results) json_loads = Inr float_results
   \<and> round_trip_eq float_results = Some True"
proof -
  have "match_number ''85.5'' = Some (PFloat ''85.5'', [])"
    by (simp add: match_number_def match_integer_def match_frac_def match_exp_def is_digit_def Let_def)
  then have wf: "well_formed float_results"
    by (simp add: float_results_def is_float_repr_def)
  have nf: "nan_free float_results"
    by (simp add: float_results_def)
  from wf nf format_json_round_trip [OF wf nf] show ?thesis
    by simp
qed

text \<open>
  Claim C7 as stated fails: a record whose score is \<^verbatim>\<open>float('nan')\<close> is formatted without
  error, its score written as \<^verbatim>\<open>NaN\<close>; the text is read back without error, as a record of
  the same fields whose score is \<^verbatim>\<open>nan\<close>; and \<^verbatim>\<open>nan\<close> is not equal to \<^verbatim>\<open>nan\<close>, so the
  record read back is not equal to the record formatted.
\<close>

theorem nan_round_trip_counterexample:
  "format_feedback (plugin_for ''json'') nan_results =
     Inr (json_dumps 2 nan_results)
   \<and> json_loads (json_dumps 2 nan_results) = Inr nan_results
   \<and> py_eq nan_results nan_results = Some False
   \<and> round_trip_eq nan_results = Some False"
proof -
  have wf: "well_formed nan_results"
    by (simp add: nan_results_def is_float_repr_def)
  have fmt: "format_feedback (plugin_for ''json'') nan_results = Inr (json_dumps 2 nan_results)"
    by (simp add: format_feedback_styles plugin_for_def init_def format_json_def)
  have rd: "json_loads (json_dumps 2 nan_results) = Inr nan_results"
    by (rule json_loads_json_dumps [OF wf])
  have ne: "py_eq nan_results nan_results = Some False"
    by (simp add: nan_results_def both_def float_eq_def)
  from fmt rd ne show ?thesis
    by (simp add: round_trip_eq_def)
qed

end
